theory Spec2Isabelle
  imports Main "HOL-Library.Sublist" "HOL-Library.Word"
begin

section \<open>ChronoLens: session controller, batch pipeline, request builder, mask binarizer\<close>

text \<open>
  A shallow embedding of \<^verbatim>\<open>src/types.ts\<close>, of the generation service
  (\<^verbatim>\<open>services/geminiService\<close>), of the action handlers of \<^verbatim>\<open>src/App.tsx\<close>
  and of \<^verbatim>\<open>handleSubmit\<close> in \<^verbatim>\<open>src/components/MaskEditor.tsx\<close>.

  JavaScript strings are modelled as \<^typ>\<open>string\<close>, one \<^typ>\<open>char\<close> per code unit (the
  texts of the program are ASCII). A string enum of TypeScript is its run-time value, a
  string: the casts \<^verbatim>\<open>localStorage.getItem(...) as ImageStyle\<close> of the program let any
  string reach the request builder, and the builder's \<^verbatim>\<open>default\<close> branch is what
  answers it.
\<close>

subsection \<open>types.ts\<close>

datatype AppState = HOME | CAPTURE | PREVIEW | PROCESSING | RESTORE | MASKING | RESULT

type_synonym Era = string

definition Era_VICTORIAN :: Era where "Era_VICTORIAN = ''Victorian Era''"
definition Era_ANCIENT_EGYPT :: Era where "Era_ANCIENT_EGYPT = ''Ancient Egypt''"
definition Era_ROARING_20S :: Era where "Era_ROARING_20S = ''Roaring 1920s''"
definition Era_VIKING :: Era where "Era_VIKING = ''Viking Age''"
definition Era_CYBERPUNK :: Era where "Era_CYBERPUNK = ''Cyberpunk Future''"
definition Era_MEDIEVAL :: Era where "Era_MEDIEVAL = ''Medieval Knight''"
definition Era_WESTERN :: Era where "Era_WESTERN = ''Wild West''"
definition Era_RENAISSANCE :: Era where "Era_RENAISSANCE = ''Renaissance Painting''"

type_synonym ImageStyle = string

definition ImageStyle_REALISTIC :: ImageStyle where "ImageStyle_REALISTIC = ''Photorealistic''"
definition ImageStyle_CINEMATIC :: ImageStyle where "ImageStyle_CINEMATIC = ''Cinematic''"
definition ImageStyle_VINTAGE :: ImageStyle where "ImageStyle_VINTAGE = ''Vintage Film''"
definition ImageStyle_PAINTING :: ImageStyle where "ImageStyle_PAINTING = ''Oil Painting''"
definition ImageStyle_CYBER :: ImageStyle where "ImageStyle_CYBER = ''Cyberpunk/Neon''"
definition ImageStyle_SKETCH :: ImageStyle where "ImageStyle_SKETCH = ''Pencil Sketch''"
definition ImageStyle_STUDIO :: ImageStyle where "ImageStyle_STUDIO = ''Studio Lighting''"
definition ImageStyle_STEAMPUNK :: ImageStyle where "ImageStyle_STEAMPUNK = ''Steampunk''"
definition ImageStyle_ART_DECO :: ImageStyle where "ImageStyle_ART_DECO = ''Art Deco''"
definition ImageStyle_RETRO_FUTURISM :: ImageStyle where
  "ImageStyle_RETRO_FUTURISM = ''Retro Futurism''"

text \<open>The members of the enum \<^verbatim>\<open>ImageStyle\<close>, in the order of their declaration.\<close>

definition ImageStyle_members :: "ImageStyle list" where
  "ImageStyle_members =
     [ImageStyle_REALISTIC, ImageStyle_CINEMATIC, ImageStyle_VINTAGE, ImageStyle_PAINTING,
      ImageStyle_CYBER, ImageStyle_SKETCH, ImageStyle_STUDIO, ImageStyle_STEAMPUNK,
      ImageStyle_ART_DECO, ImageStyle_RETRO_FUTURISM]"

type_synonym Resolution = string

definition Resolution_STANDARD :: Resolution where "Resolution_STANDARD = ''Standard''"
definition Resolution_HIGH :: Resolution where "Resolution_HIGH = ''High Quality''"
definition Resolution_ULTRA_4K :: Resolution where "Resolution_ULTRA_4K = ''4K Ultra''"

record GenerationResult =
  era :: string
  imageUrl :: string

subsection \<open>The request builder of the generation service\<close>

text \<open>
  \<^verbatim>\<open>getStylePrompt\<close>: a \<^verbatim>\<open>switch\<close> over the style tag, the cases in the order
  of the source; \<^verbatim>\<open>case ImageStyle.REALISTIC: default:\<close> is the last branch.
\<close>

definition getStylePrompt :: "ImageStyle \<Rightarrow> string" where
  "getStylePrompt style =
    (if style = ImageStyle_CINEMATIC then
       ''Cinematic lighting, dramatic atmosphere, movie still quality, color graded, widescreen aspect ratio.''
     else if style = ImageStyle_VINTAGE then
       ''Vintage film grain, sepia tones, slightly faded, daguerreotype style, authentic period look.''
     else if style = ImageStyle_PAINTING then
       ''Oil painting style, visible brushstrokes, classical art composition, textured canvas look.''
     else if style = ImageStyle_CYBER then
       ''Neon lighting, high contrast, glowing accents, futuristic aesthetic, cybernetic details.''
     else if style = ImageStyle_SKETCH then
       ''Charcoal sketch, pencil lines, artistic shading, monochrome, hand-drawn style.''
     else if style = ImageStyle_STUDIO then
       ''Professional studio lighting, softbox, neutral background, high key, perfect portrait.''
     else if style = ImageStyle_STEAMPUNK then
       ''Steampunk aesthetic, brass gears, copper accents, steam-powered machinery background, victorian industrial style.''
     else if style = ImageStyle_ART_DECO then
       ''Art Deco style, geometric patterns, gold and black color palette, lavish 1920s luxury, symmetrical composition.''
     else if style = ImageStyle_RETRO_FUTURISM then
       ''Retro-futurism, 1950s atomic age sci-fi, chrome surfaces, flying cars, vibrant colors, space age optimism.''
     else
       ''Photorealistic, natural lighting, sharp focus, true to life colors.'')"

text \<open>
  \<^verbatim>\<open>getResolutionPrompt\<close>: two local variables with defaults, each overwritten by its own
  \<^verbatim>\<open>if\<close> chain, then joined by the template
  \<^verbatim>\<open>`${base} Ensure the image has ${detailDesc}.`\<close>. The detail level is a JavaScript
  number; the slider of the program yields integers.
\<close>

definition getResolutionPrompt :: "Resolution \<Rightarrow> int \<Rightarrow> string" where
  "getResolutionPrompt resolution detailLevel =
    (let base = ''Standard resolution.'';
         detailDesc = ''balanced details'';
         base = (if resolution = Resolution_HIGH then ''High quality, detailed, sharp focus.''
                 else if resolution = Resolution_ULTRA_4K then
                   ''4K resolution, ultra sharp, highly detailed, masterful quality.''
                 else base);
         detailDesc = (if detailLevel < 30 then ''soft edges, smooth textures, dreamy quality''
                       else if detailLevel > 70 then
                         ''intricate micro-details, hyper-realistic textures, extremely sharp edges, high fidelity''
                       else detailDesc)
     in base @ '' Ensure the image has '' @ detailDesc @ ''.'')"

text \<open>
  The first \<^verbatim>\<open>if\<close> chain of \<^verbatim>\<open>getResolutionPrompt\<close> on its own: the value of
  the local variable \<^verbatim>\<open>base\<close> when the template is built. It reads the resolution
  tier only.
\<close>

definition resolution_base :: "Resolution \<Rightarrow> string" where
  "resolution_base resolution =
    (if resolution = Resolution_HIGH then ''High quality, detailed, sharp focus.''
     else if resolution = Resolution_ULTRA_4K then
       ''4K resolution, ultra sharp, highly detailed, masterful quality.''
     else ''Standard resolution.'')"

subsection \<open>The remote collaborator\<close>

text \<open>
  A request of \<^verbatim>\<open>ai.models.generateContent\<close>: the model name and the parts of
  \<^verbatim>\<open>contents\<close> (inline data with its MIME type, or text).
\<close>

datatype request_part = InlineData string string | TextPart string

record request =
  model :: string
  parts :: "request_part list"

text \<open>
  What the service reads of a response: \<^verbatim>\<open>response.text\<close> (possibly undefined) and
  \<^verbatim>\<open>response.candidates?.[0]?.content?.parts\<close> (undefined when any link of the chain
  is missing), where each part is represented by its \<^verbatim>\<open>inlineData.data\<close>, if it has
  one. The promise of the call is either rejected or fulfilled with a response.
\<close>

record response =
  response_text :: "string option"
  response_parts :: "string option list option"

datatype reply = Rejected | Fulfilled response

text \<open>
  The collaborator is any deterministic function of the requests it has received so far
  and of the request at hand. The list of requests issued is the state threaded through
  every call: a call appends its request, and its reply is settled before the caller goes
  on (\<^verbatim>\<open>await\<close>).
\<close>

type_synonym collaborator = "request list \<Rightarrow> request \<Rightarrow> reply"

definition generateContent :: "collaborator \<Rightarrow> request list \<Rightarrow> request \<Rightarrow> reply \<times> request list" where
  "generateContent ai log q = (ai log q, log @ [q])"

subsection \<open>The generation service\<close>

text \<open>\<^verbatim>\<open>a || b\<close> on strings: the empty string is falsy.\<close>

definition or_else :: "string \<Rightarrow> string \<Rightarrow> string" where
  "or_else a b = (if a = [] then b else a)"

text \<open>
  \<^verbatim>\<open>base64Image.replace(/^data:image\/(png|jpeg|jpg|webp);base64,/, '')\<close>: the header
  is removed when the string starts with it.
\<close>

definition cleanBase64 :: "string \<Rightarrow> string" where
  "cleanBase64 base64Image =
    (if prefix ''data:image/png;base64,'' base64Image then drop 22 base64Image
     else if prefix ''data:image/jpeg;base64,'' base64Image then drop 23 base64Image
     else if prefix ''data:image/jpg;base64,'' base64Image then drop 22 base64Image
     else if prefix ''data:image/webp;base64,'' base64Image then drop 23 base64Image
     else base64Image)"

definition newline :: string where
  "newline = [CHR 0x0A]"

datatype analysisType = CONTEXT | DAMAGE

definition analysis_prompt :: "analysisType \<Rightarrow> string" where
  "analysis_prompt analysisType =
    (if analysisType = CONTEXT then
       ''Analyze this image in detail. Describe the person's appearance, expression, clothing, and the setting. Provide a creative assessment of what historical era they might accidentally fit into based on their vibe.''
     else
       ''Analyze this image specifically for physical defects, damage, and age-related degradation. Look for scratches, dust, tears, discoloration, fading, noise, blurriness, or artifacts. Provide a concise list of what needs to be repaired to restore it to pristine condition.'')"

definition analysis_request :: "string \<Rightarrow> analysisType \<Rightarrow> request" where
  "analysis_request base64Image analysisType =
    \<lparr>model = ''gemini-3-pro-preview'',
     parts = [InlineData (cleanBase64 base64Image) ''image/jpeg'',
              TextPart (analysis_prompt analysisType)]\<rparr>"

text \<open>
  The service functions return \<open>Inl message\<close> for a thrown \<^verbatim>\<open>Error(message)\<close> and
  \<open>Inr value\<close> for a returned value, with the request log after the call. Every
  \<^verbatim>\<open>catch\<close> of the service replaces the error by its own fixed message.
\<close>

definition analyzeImage ::
  "collaborator \<Rightarrow> request list \<Rightarrow> string \<Rightarrow> analysisType \<Rightarrow> (string + string) \<times> request list" where
  "analyzeImage ai log base64Image analysisType =
    (case generateContent ai log (analysis_request base64Image analysisType) of
       (Rejected, log') \<Rightarrow> (Inl ''Failed to analyze image. Please try again.'', log')
     | (Fulfilled r, log') \<Rightarrow>
         (Inr (or_else (case response_text r of None \<Rightarrow> [] | Some t \<Rightarrow> t)
                 ''No analysis available.''), log'))"

text \<open>
  The loop over the parts of a response: the first part whose \<^verbatim>\<open>inlineData.data\<close>
  is truthy gives the data URL.
\<close>

fun find_inline_image :: "string option list \<Rightarrow> string option" where
  "find_inline_image [] = None"
| "find_inline_image (part # rest) =
    (case part of
       Some d \<Rightarrow> (if d \<noteq> [] then Some (''data:image/png;base64,'' @ d)
                  else find_inline_image rest)
     | None \<Rightarrow> find_inline_image rest)"

definition image_of_reply :: "reply \<Rightarrow> string option" where
  "image_of_reply rp =
    (case rp of
       Rejected \<Rightarrow> None
     | Fulfilled r \<Rightarrow>
         (case response_parts r of None \<Rightarrow> None | Some ps \<Rightarrow> find_inline_image ps))"

definition image_request :: "string \<Rightarrow> string \<Rightarrow> request" where
  "image_request base64Data textPrompt =
    \<lparr>model = ''gemini-2.5-flash-image'',
     parts = [InlineData base64Data ''image/jpeg'', TextPart textPrompt]\<rparr>"

text \<open>
  \<^verbatim>\<open>processImage\<close>: a rejected call and a response without an image (the
  \<^verbatim>\<open>throw new Error("No image generated.")\<close> inside the \<^verbatim>\<open>try\<close>) both end in the
  \<^verbatim>\<open>catch\<close>, which throws the one message below.
\<close>

definition processImage ::
  "collaborator \<Rightarrow> request list \<Rightarrow> string \<Rightarrow> string \<Rightarrow> (string + string) \<times> request list" where
  "processImage ai log base64Data textPrompt =
    (case generateContent ai log (image_request base64Data textPrompt) of
       (rp, log') \<Rightarrow>
         (case image_of_reply rp of
            Some url \<Rightarrow> (Inr url, log')
          | None \<Rightarrow> (Inl ''Failed to generate image. Please try again.'', log')))"

definition timeTravel_prompt :: "Era \<Rightarrow> ImageStyle \<Rightarrow> Resolution \<Rightarrow> int \<Rightarrow> string" where
  "timeTravel_prompt e style resolution detailLevel =
    newline @ ''    Transform this image into a scene from the '' @ e @ ''.'' @
    newline @ ''    Keep the person's facial features and likeness exactly as they are in the original photo, but change their clothing and the background to match the '' @ e @ ''.'' @
    newline @ ''    '' @ getStylePrompt style @
    newline @ ''    '' @ getResolutionPrompt resolution detailLevel @
    newline @ ''  ''"

definition timeTravel_request :: "string \<Rightarrow> Era \<Rightarrow> ImageStyle \<Rightarrow> Resolution \<Rightarrow> int \<Rightarrow> request" where
  "timeTravel_request base64Image e style resolution detailLevel =
    image_request (cleanBase64 base64Image) (timeTravel_prompt e style resolution detailLevel)"

definition timeTravel ::
  "collaborator \<Rightarrow> request list \<Rightarrow> string \<Rightarrow> Era \<Rightarrow> ImageStyle \<Rightarrow> Resolution \<Rightarrow> int
     \<Rightarrow> (string + string) \<times> request list" where
  "timeTravel ai log base64Image e style resolution detailLevel =
    processImage ai log (cleanBase64 base64Image)
      (timeTravel_prompt e style resolution detailLevel)"

definition customEdit_prompt :: "string \<Rightarrow> ImageStyle \<Rightarrow> Resolution \<Rightarrow> int \<Rightarrow> string" where
  "customEdit_prompt customPrompt style resolution detailLevel =
    customPrompt @ ''. '' @ getStylePrompt style @ '' '' @
    getResolutionPrompt resolution detailLevel"

definition customEdit_request ::
  "string \<Rightarrow> string \<Rightarrow> ImageStyle \<Rightarrow> Resolution \<Rightarrow> int \<Rightarrow> request" where
  "customEdit_request base64Image customPrompt style resolution detailLevel =
    image_request (cleanBase64 base64Image)
      (customEdit_prompt customPrompt style resolution detailLevel)"

definition customEdit ::
  "collaborator \<Rightarrow> request list \<Rightarrow> string \<Rightarrow> string \<Rightarrow> ImageStyle \<Rightarrow> Resolution \<Rightarrow> int
     \<Rightarrow> (string + string) \<times> request list" where
  "customEdit ai log base64Image customPrompt style resolution detailLevel =
    processImage ai log (cleanBase64 base64Image)
      (customEdit_prompt customPrompt style resolution detailLevel)"

definition magicEdit_prompt :: "string \<Rightarrow> string" where
  "magicEdit_prompt editPrompt =
    newline @ ''    You are an expert image editor. I have provided two images.'' @
    newline @ ''    1. The original image.'' @
    newline @ ''    2. A mask image where the white area indicates the specific region to edit.'' @
    newline @ ''    '' @
    newline @ ''    Task: Edit the original image by changing the content of the masked area to match this instruction: ''
            @ [CHR 0x27] @ editPrompt @ [CHR 0x27] @ ''.'' @
    newline @ ''    '' @
    newline @ ''    Rules:'' @
    newline @ ''    - Seamlessly blend the edited area with the surrounding pixels (inpainting).'' @
    newline @ ''    - Do NOT modify any part of the image that corresponds to the black area of the mask.'' @
    newline @ ''    - Maintain the lighting, perspective, and quality of the original image.'' @
    newline @ ''  ''"

definition magicEdit_request :: "string \<Rightarrow> string \<Rightarrow> string \<Rightarrow> request" where
  "magicEdit_request base64Image base64Mask editPrompt =
    \<lparr>model = ''gemini-2.5-flash-image'',
     parts = [InlineData (cleanBase64 base64Image) ''image/jpeg'',
              InlineData (cleanBase64 base64Mask) ''image/png'',
              TextPart (magicEdit_prompt editPrompt)]\<rparr>"

definition magicEdit ::
  "collaborator \<Rightarrow> request list \<Rightarrow> string \<Rightarrow> string \<Rightarrow> string \<Rightarrow> (string + string) \<times> request list" where
  "magicEdit ai log base64Image base64Mask editPrompt =
    (case generateContent ai log (magicEdit_request base64Image base64Mask editPrompt) of
       (rp, log') \<Rightarrow>
         (case image_of_reply rp of
            Some url \<Rightarrow> (Inr url, log')
          | None \<Rightarrow> (Inl ''Failed to edit image. Please try again.'', log')))"

subsection \<open>The session: the state of the component \<^verbatim>\<open>App\<close>\<close>

text \<open>
  One field per \<^verbatim>\<open>useState\<close> cell that the action handlers read or write. The cells
  that only drive presentation (\<^verbatim>\<open>isGeneratingPrompt\<close>, \<^verbatim>\<open>sliderPosition\<close>,
  \<^verbatim>\<open>isInfoOpen\<close>) are left out. \<^verbatim>\<open>null\<close> is \<open>None\<close>.
\<close>

record session =
  state :: AppState
  capturedImage :: "string option"
  generatedResults :: "GenerationResult list"
  activeIndex :: nat
  analysisText :: "string option"
  error :: "string option"
  selectedStyle :: ImageStyle
  selectedResolution :: Resolution
  detailLevel :: int
  customPrompt :: string
  activeFilter :: string

text \<open>
  The initial values of the cells. The three settings come from local storage: a missing
  or empty entry gives the default, and so does a stored detail level that reads as 0 or
  as no number (\<^verbatim>\<open>Number(...) || 50\<close>); the stored detail level is taken as already
  parsed.
\<close>

definition initial_session :: "string option \<Rightarrow> string option \<Rightarrow> int option \<Rightarrow> session" where
  "initial_session storedStyle storedResolution storedDetail =
    \<lparr>state = HOME, capturedImage = None, generatedResults = [], activeIndex = 0,
     analysisText = None, error = None,
     selectedStyle = or_else (case storedStyle of None \<Rightarrow> [] | Some v \<Rightarrow> v) ImageStyle_REALISTIC,
     selectedResolution =
       or_else (case storedResolution of None \<Rightarrow> [] | Some v \<Rightarrow> v) Resolution_STANDARD,
     detailLevel = (case storedDetail of None \<Rightarrow> 50 | Some n \<Rightarrow> if n = 0 then 50 else n),
     customPrompt = [], activeFilter = ''none''\<rparr>"

subsection \<open>The action handlers of \<^verbatim>\<open>App\<close>\<close>

definition startApp :: "session \<Rightarrow> session" where
  "startApp s = s\<lparr>state := CAPTURE\<rparr>"

definition handleCapture :: "string \<Rightarrow> session \<Rightarrow> session" where
  "handleCapture imageSrc s =
    s\<lparr>capturedImage := Some imageSrc, state := PREVIEW, error := None, analysisText := None,
      generatedResults := [], activeFilter := ''none'', customPrompt := []\<rparr>"

definition reset :: "session \<Rightarrow> session" where
  "reset s =
    s\<lparr>capturedImage := None, generatedResults := [], analysisText := None, state := HOME,
      activeFilter := ''none'', customPrompt := []\<rparr>"

text \<open>
  An asynchronous handler is its guard, the assignments it makes before its first
  \<^verbatim>\<open>await\<close> (the function \<open>_start\<close>: the session that is rendered while the remote call
  is pending), and what it does once the call has settled. A handler reads the cells as
  they were when it was invoked. \<^verbatim>\<open>!capturedImage\<close> holds for \<^verbatim>\<open>null\<close> and for the
  empty string.
\<close>

definition handleAnalyze_start :: "session \<Rightarrow> session" where
  "handleAnalyze_start s = s\<lparr>state := PROCESSING, error := None\<rparr>"

definition handleAnalyze :: "collaborator \<Rightarrow> request list \<Rightarrow> session \<Rightarrow> session \<times> request list" where
  "handleAnalyze ai log s =
    (case capturedImage s of
       None \<Rightarrow> (s, log)
     | Some img \<Rightarrow>
         if img = [] then (s, log)
         else
           (let s1 = handleAnalyze_start s in
            case analyzeImage ai log img CONTEXT of
              (Inr txt, log') \<Rightarrow> (s1\<lparr>analysisText := Some txt, state := PREVIEW\<rparr>, log')
            | (Inl message, log') \<Rightarrow>
                (s1\<lparr>error := Some (or_else message ''Analysis failed''), state := PREVIEW\<rparr>, log')))"

definition restorationPrompt :: "string \<Rightarrow> string" where
  "restorationPrompt damageReport =
    ''Restore this photograph to perfection. Fix the following issues: '' @ damageReport @
    ''. Remove all scratches, tears, noise, and blur. Enhance clarity and sharpness. Ensure colors are natural and vibrant.''"

definition handleRestore_start :: "session \<Rightarrow> session" where
  "handleRestore_start s =
    s\<lparr>state := RESTORE, error := None, generatedResults := [], activeIndex := 0,
      activeFilter := ''none''\<rparr>"

definition handleRestore :: "collaborator \<Rightarrow> request list \<Rightarrow> session \<Rightarrow> session \<times> request list" where
  "handleRestore ai log s =
    (case capturedImage s of
       None \<Rightarrow> (s, log)
     | Some img \<Rightarrow>
         if img = [] then (s, log)
         else
           (let s1 = handleRestore_start s in
            case analyzeImage ai log img DAMAGE of
              (Inl message, log1) \<Rightarrow>
                (s1\<lparr>error := Some (or_else message ''Restoration failed.''), state := PREVIEW\<rparr>, log1)
            | (Inr damageReport, log1) \<Rightarrow>
                (case customEdit ai log1 img (restorationPrompt damageReport)
                        ImageStyle_REALISTIC Resolution_HIGH 80 of
                   (Inr url, log2) \<Rightarrow>
                     (s1\<lparr>generatedResults := [\<lparr>era = ''Restored Photo'', imageUrl = url\<rparr>],
                         state := RESULT\<rparr>, log2)
                 | (Inl message, log2) \<Rightarrow>
                     (s1\<lparr>error := Some (or_else message ''Restoration failed.''),
                         state := PREVIEW\<rparr>, log2))))"

definition handleStartJourney_start :: "session \<Rightarrow> session" where
  "handleStartJourney_start s =
    s\<lparr>state := PROCESSING, error := None, generatedResults := [], activeIndex := 0,
      activeFilter := ''none''\<rparr>"

text \<open>
  The \<^verbatim>\<open>for\<close> loop of \<^verbatim>\<open>handleStartJourney\<close> inside its \<^verbatim>\<open>try\<close>, with the
  \<^verbatim>\<open>catch\<close>: \<open>results\<close> is the local array, \<open>s\<close> the session as the setters have left
  it. An era whose call returns is pushed and published
  (\<^verbatim>\<open>setGeneratedResults([...results])\<close>) before the next iteration; a call that throws
  leaves the loop for the \<^verbatim>\<open>catch\<close>; the end of the list is
  \<^verbatim>\<open>setState(AppState.RESULT)\<close>.
\<close>

fun journey_loop ::
  "collaborator \<Rightarrow> string \<Rightarrow> ImageStyle \<Rightarrow> Resolution \<Rightarrow> int \<Rightarrow> Era list
     \<Rightarrow> GenerationResult list \<Rightarrow> session \<Rightarrow> request list \<Rightarrow> session \<times> request list" where
  "journey_loop ai img style res detail [] results s log = (s\<lparr>state := RESULT\<rparr>, log)"
| "journey_loop ai img style res detail (e # eras) results s log =
    (case timeTravel ai log img e style res detail of
       (Inr url, log') \<Rightarrow>
         (let results' = results @ [\<lparr>era = e, imageUrl = url\<rparr>]
          in journey_loop ai img style res detail eras results'
               (s\<lparr>generatedResults := results'\<rparr>) log')
     | (Inl message, log') \<Rightarrow>
         (s\<lparr>error := Some (or_else message ''Failed during time travel.''),
            state := (if length results > 0 then RESULT else PREVIEW)\<rparr>, log'))"

definition handleStartJourney ::
  "collaborator \<Rightarrow> request list \<Rightarrow> Era list \<Rightarrow> session \<Rightarrow> session \<times> request list" where
  "handleStartJourney ai log eras s =
    (case capturedImage s of
       None \<Rightarrow> (s, log)
     | Some img \<Rightarrow>
         if img = [] \<or> length eras = 0 then (s, log)
         else journey_loop ai img (selectedStyle s) (selectedResolution s) (detailLevel s) eras []
                (handleStartJourney_start s) log)"

definition handleCustomEdit_start :: "session \<Rightarrow> session" where
  "handleCustomEdit_start s =
    s\<lparr>state := PROCESSING, error := None, generatedResults := [], activeIndex := 0,
      activeFilter := ''none''\<rparr>"

definition handleCustomEdit ::
  "collaborator \<Rightarrow> request list \<Rightarrow> string \<Rightarrow> session \<Rightarrow> session \<times> request list" where
  "handleCustomEdit ai log prompt s =
    (case capturedImage s of
       None \<Rightarrow> (s, log)
     | Some img \<Rightarrow>
         if img = [] then (s, log)
         else
           (let s1 = handleCustomEdit_start s in
            case customEdit ai log img prompt (selectedStyle s) (selectedResolution s)
                   (detailLevel s) of
              (Inr url, log') \<Rightarrow>
                (s1\<lparr>generatedResults := [\<lparr>era = ''Custom Reality'', imageUrl = url\<rparr>],
                    state := RESULT\<rparr>, log')
            | (Inl message, log') \<Rightarrow>
                (s1\<lparr>error := Some (or_else message ''Custom edit failed''), state := PREVIEW\<rparr>,
                 log')))"

definition handleStartMagicEdit :: "session \<Rightarrow> session" where
  "handleStartMagicEdit s = s\<lparr>state := MASKING\<rparr>"

definition handleMagicEditProcess_start :: "session \<Rightarrow> session" where
  "handleMagicEditProcess_start s =
    s\<lparr>state := PROCESSING, error := None, generatedResults := [], activeIndex := 0,
      activeFilter := ''none''\<rparr>"

definition handleMagicEditProcess ::
  "collaborator \<Rightarrow> request list \<Rightarrow> string \<Rightarrow> string \<Rightarrow> session \<Rightarrow> session \<times> request list" where
  "handleMagicEditProcess ai log maskImage prompt s =
    (case capturedImage s of
       None \<Rightarrow> (s, log)
     | Some img \<Rightarrow>
         if img = [] then (s, log)
         else
           (let s1 = handleMagicEditProcess_start s in
            case magicEdit ai log img maskImage prompt of
              (Inr url, log') \<Rightarrow>
                (s1\<lparr>generatedResults := [\<lparr>era = ''Magic Edit'', imageUrl = url\<rparr>],
                    state := RESULT\<rparr>, log')
            | (Inl message, log') \<Rightarrow>
                (s1\<lparr>error := Some (or_else message ''Magic edit failed''), state := PREVIEW\<rparr>,
                 log')))"

subsection \<open>What the rendered screens offer\<close>

text \<open>
  \<^verbatim>\<open>App\<close> renders exactly one screen, chosen by \<^verbatim>\<open>state\<close>, and a handler can only
  be invoked from a control of the screen on display: the home screen has the start
  button; the capture screen has the camera's capture and cancel; the preview screen has
  "Start Over", the selector's actions and the settings; the mask editor has confirm and
  cancel; the loading screens of \<^verbatim>\<open>PROCESSING\<close> and \<^verbatim>\<open>RESTORE\<close> have no control;
  the result screen has "Adjust Settings", "New Photo", the filters and, when there is more
  than one result, a thumbnail per result, and shows none of them when
  \<^verbatim>\<open>generatedResults[activeIndex]\<close> is undefined. The custom-edit button calls
  \<^verbatim>\<open>customPrompt && onCustom(customPrompt)\<close>. The prompt generator of the preview
  screen, which writes \<^verbatim>\<open>customPrompt\<close> only, and the download and share buttons, which
  write no cell, are left out.
\<close>

datatype action =
    EnterPhotoBooth
  | CameraCapture string
  | CameraCancel
  | StartOver
  | Analyze
  | Restore
  | Generate "Era list"
  | Custom
  | MagicEdit
  | StyleChange ImageStyle
  | ResolutionChange Resolution
  | DetailLevelChange int
  | CustomPromptChange string
  | MaskConfirm string string
  | MaskCancel
  | AdjustSettings
  | NewPhoto
  | FilterChange string
  | Thumbnail nat

definition result_shown :: "session \<Rightarrow> bool" where
  "result_shown s = (state s = RESULT \<and> activeIndex s < length (generatedResults s))"

definition dispatch :: "collaborator \<Rightarrow> session \<times> request list \<Rightarrow> action \<Rightarrow> session \<times> request list" where
  "dispatch ai sl a =
    (let s = fst sl; log = snd sl in
     case a of
       EnterPhotoBooth \<Rightarrow> if state s = HOME then (startApp s, log) else sl
     | CameraCapture img \<Rightarrow> if state s = CAPTURE then (handleCapture img s, log) else sl
     | CameraCancel \<Rightarrow> if state s = CAPTURE then (s\<lparr>state := HOME\<rparr>, log) else sl
     | StartOver \<Rightarrow> if state s = PREVIEW then (reset s, log) else sl
     | Analyze \<Rightarrow> if state s = PREVIEW then handleAnalyze ai log s else sl
     | Restore \<Rightarrow> if state s = PREVIEW then handleRestore ai log s else sl
     | Generate eras \<Rightarrow>
         if state s = PREVIEW \<and> length eras > 0 then handleStartJourney ai log eras s else sl
     | Custom \<Rightarrow>
         if state s = PREVIEW \<and> customPrompt s \<noteq> []
         then handleCustomEdit ai log (customPrompt s) s else sl
     | MagicEdit \<Rightarrow> if state s = PREVIEW then (handleStartMagicEdit s, log) else sl
     | StyleChange v \<Rightarrow> if state s = PREVIEW then (s\<lparr>selectedStyle := v\<rparr>, log) else sl
     | ResolutionChange v \<Rightarrow>
         if state s = PREVIEW then (s\<lparr>selectedResolution := v\<rparr>, log) else sl
     | DetailLevelChange v \<Rightarrow> if state s = PREVIEW then (s\<lparr>detailLevel := v\<rparr>, log) else sl
     | CustomPromptChange v \<Rightarrow> if state s = PREVIEW then (s\<lparr>customPrompt := v\<rparr>, log) else sl
     | MaskConfirm maskImage p \<Rightarrow>
         if state s = MASKING then handleMagicEditProcess ai log maskImage p s else sl
     | MaskCancel \<Rightarrow> if state s = MASKING then (s\<lparr>state := PREVIEW\<rparr>, log) else sl
     | AdjustSettings \<Rightarrow> if result_shown s then (s\<lparr>state := PREVIEW\<rparr>, log) else sl
     | NewPhoto \<Rightarrow> if result_shown s then (reset s, log) else sl
     | FilterChange v \<Rightarrow> if result_shown s then (s\<lparr>activeFilter := v\<rparr>, log) else sl
     | Thumbnail idx \<Rightarrow>
         if result_shown s \<and> length (generatedResults s) > 1 \<and> idx < length (generatedResults s)
         then (s\<lparr>activeIndex := idx\<rparr>, log) else sl)"

text \<open>A visit: the actions of the user, one after the other, from a session and a log.\<close>

definition visit ::
  "collaborator \<Rightarrow> session \<times> request list \<Rightarrow> action list \<Rightarrow> session \<times> request list" where
  "visit ai sl actions = foldl (dispatch ai) sl actions"

text \<open>
  The line under the heading of the loading screen, \<^verbatim>\<open>renderLoadingState(isRestore)\<close>:
  \<^verbatim>\<open>PROCESSING\<close> renders it with \<^verbatim>\<open>false\<close>, \<^verbatim>\<open>RESTORE\<close> with \<^verbatim>\<open>true\<close>. It
  reads the number of results as the progress of a batch; \<open>decimal\<close> is the number in a
  template string.
\<close>

function decimal :: "nat \<Rightarrow> string" where
  "decimal n =
    (if n < 10 then [''0123456789'' ! n]
     else decimal (n div 10) @ [''0123456789'' ! (n mod 10)])"
  by pat_completeness auto
termination
  by (relation "measure (\<lambda>n. n)") auto

declare decimal.simps [simp del]

definition renderLoadingState_caption :: "bool \<Rightarrow> session \<Rightarrow> string" where
  "renderLoadingState_caption isRestore s =
    (if isRestore then ''Analyzing structural integrity...''
     else if length (generatedResults s) > 0
     then ''Materializing Era '' @ decimal (length (generatedResults s)) @ ''...''
     else ''Initiating Warp Drive...'')"

subsection \<open>The mask editor: \<^verbatim>\<open>handleSubmit\<close> and its button\<close>

text \<open>
  \<^verbatim>\<open>String.prototype.trim\<close> on one-byte code units: tab, line feed, vertical tab, form
  feed, carriage return, space and no-break space are white space.
\<close>

definition is_space :: "char \<Rightarrow> bool" where
  "is_space c =
    (c = CHR 0x09 \<or> c = CHR 0x0A \<or> c = CHR 0x0B \<or> c = CHR 0x0C \<or> c = CHR 0x0D \<or>
     c = CHR 0x20 \<or> c = CHR 0xA0)"

definition trim :: "string \<Rightarrow> string" where
  "trim str = rev (dropWhile is_space (rev (dropWhile is_space str)))"

text \<open>
  The pixel data of a canvas: the flat \<^verbatim>\<open>Uint8ClampedArray\<close> of
  \<^verbatim>\<open>ImageData.data\<close>, four bytes (red, green, blue, alpha) per pixel.
\<close>

type_synonym byte = "8 word"

text \<open>
  The loop \<^verbatim>\<open>for (let i = 0; i < data.length; i += 4)\<close> of \<^verbatim>\<open>handleSubmit\<close>: where
  \<^verbatim>\<open>data[i] > 0\<close> the four bytes from \<open>i\<close> are set to 255. A write beyond the end of a
  typed array is ignored, as an update beyond the end of a list is.
\<close>

function binarize_loop :: "nat \<Rightarrow> byte list \<Rightarrow> byte list" where
  "binarize_loop i data =
    (if i < length data
     then binarize_loop (i + 4)
            (if data ! i > 0
             then data[i := 255, i + 1 := 255, i + 2 := 255, i + 3 := 255]
             else data)
     else data)"
  by pat_completeness auto
termination
  by (relation "measure (\<lambda>(i, data). length data - i)") auto

declare binarize_loop.simps [simp del]

definition binarize :: "byte list \<Rightarrow> byte list" where
  "binarize data = binarize_loop 0 data"

text \<open>
  The canvas interface that \<^verbatim>\<open>handleSubmit\<close> uses and the program does not define:
  whether \<^verbatim>\<open>getContext('2d')\<close> gives a context; the pixel data read back by
  \<^verbatim>\<open>getImageData\<close> after the mask canvas was filled black and the visual canvas drawn
  over it (\<^verbatim>\<open>fillRect\<close>, \<^verbatim>\<open>drawImage\<close>), as a function of the pixel data of the visual
  canvas; and the encoding \<^verbatim>\<open>toDataURL('image/png')\<close> of pixel data.
\<close>

record canvas_api =
  getContext2d :: bool
  drawnOverBlack :: "byte list \<Rightarrow> byte list"
  toDataURL :: "byte list \<Rightarrow> string"

text \<open>
  The state of the editor that \<^verbatim>\<open>handleSubmit\<close> and its button read: the instruction,
  the flag set by every stroke segment drawn and cleared by "Clear", and the visual
  canvas (\<open>None\<close> when \<^verbatim>\<open>canvasRef.current\<close> is null).
\<close>

record editor =
  prompt :: string
  hasDrawn :: bool
  canvas :: "byte list option"

text \<open>
  What a call does to the outside, in order: \<^verbatim>\<open>putImageData\<close> of the thresholded
  buffer, and the hand-off \<^verbatim>\<open>onConfirm(maskDataUrl, prompt)\<close>.
\<close>

datatype effect = PutImageData "byte list" | OnConfirm string string

definition handleSubmit :: "canvas_api \<Rightarrow> editor \<Rightarrow> effect list" where
  "handleSubmit api ed =
    (if trim (prompt ed) = [] then []
     else
       (case canvas ed of
          None \<Rightarrow> []
        | Some layer \<Rightarrow>
            if \<not> getContext2d api then []
            else
              (let data = binarize (drawnOverBlack api layer);
                   maskDataUrl = toDataURL api data
               in [PutImageData data, OnConfirm maskDataUrl (prompt ed)])))"

text \<open>
  The confirm button: \<^verbatim>\<open>disabled={!hasDrawn || !prompt.trim()}\<close>,
  \<^verbatim>\<open>onClick={handleSubmit}\<close>. A disabled button does not call its handler.
\<close>

definition confirm_disabled :: "editor \<Rightarrow> bool" where
  "confirm_disabled ed = (\<not> hasDrawn ed \<or> trim (prompt ed) = [])"

definition confirm_click :: "canvas_api \<Rightarrow> editor \<Rightarrow> effect list" where
  "confirm_click api ed = (if confirm_disabled ed then [] else handleSubmit api ed)"

text \<open>
  The pixel \<open>p\<close> of a buffer, as its four bytes, and the two colours of a mask.
\<close>

definition pixel :: "byte list \<Rightarrow> nat \<Rightarrow> byte list" where
  "pixel data p = take 4 (drop (4 * p) data)"

definition white :: "byte list" where
  "white = [255, 255, 255, 255]"

definition black :: "byte list" where
  "black = [0, 0, 0, 255]"

text \<open>
  What the editor can read back from the mask canvas. The mask canvas is filled with
  opaque black and the visual canvas is drawn over it (\<^verbatim>\<open>source-over\<close>); the only
  colour ever drawn on the visual canvas is \<^verbatim>\<open>strokeStyle = 'rgba(255, 0, 100, 0.5)'\<close>,
  whatever opacity it has accumulated. So the buffer is made of whole pixels, each
  opaque, with no green and with no more blue than red.
\<close>

fun ink_over_black :: "byte list \<Rightarrow> bool" where
  "ink_over_black [] = True"
| "ink_over_black (r # g # b # a # rest) = (g = 0 \<and> b \<le> r \<and> a = 255 \<and> ink_over_black rest)"
| "ink_over_black _ = False"

subsection \<open>Runs of the collaborator\<close>

text \<open>
  A reply is a success of the generation call when it carries an image; a rejected call
  and a response with no image payload are its two failures.
\<close>

definition produces_image :: "reply \<Rightarrow> bool" where
  "produces_image rp = (image_of_reply rp \<noteq> None)"

text \<open>
  \<open>succeeds_then_fails ai log qs k\<close>: asked the requests \<open>qs\<close> one after the other,
  starting from the log \<open>log\<close>, the collaborator succeeds on the first \<open>k\<close> of them and,
  when there is a request number \<open>k + 1\<close>, fails on it.
\<close>

fun succeeds_then_fails :: "collaborator \<Rightarrow> request list \<Rightarrow> request list \<Rightarrow> nat \<Rightarrow> bool" where
  "succeeds_then_fails ai log [] k = (k = 0)"
| "succeeds_then_fails ai log (q # qs) 0 = (\<not> produces_image (ai log q))"
| "succeeds_then_fails ai log (q # qs) (Suc k) =
     (produces_image (ai log q) \<and> succeeds_then_fails ai (log @ [q]) qs k)"

text \<open>
  The result that item \<open>i\<close> of a list of eras lands when the items before it have been
  requested, in order, and no other: its label is the era, its image the one of the
  collaborator's reply; \<open>rq\<close> builds the request of an era.
\<close>

definition landed ::
  "collaborator \<Rightarrow> request list \<Rightarrow> (Era \<Rightarrow> request) \<Rightarrow> Era list \<Rightarrow> nat \<Rightarrow> GenerationResult" where
  "landed ai log rq eras i =
     \<lparr>era = eras ! i,
      imageUrl = the (image_of_reply (ai (log @ map rq (take i eras)) (rq (eras ! i))))\<rparr>"

subsection \<open>Concrete sessions, collaborators and canvases\<close>

definition sample_image :: string where
  "sample_image = ''data:image/jpeg;base64,QUJD''"

definition image_reply :: reply where
  "image_reply =
     Fulfilled \<lparr>response_text = Some ''two scratches'', response_parts = Some [None, Some ''SU1H'']\<rparr>"

definition no_image_reply :: reply where
  "no_image_reply = Fulfilled \<lparr>response_text = Some ''no image'', response_parts = Some [None]\<rparr>"

text \<open>A collaborator that answers every request with an image.\<close>

definition ai_every_item :: collaborator where
  "ai_every_item log q = image_reply"

text \<open>A collaborator that produces an image for the first request only.\<close>

definition ai_first_item_only :: collaborator where
  "ai_first_item_only log q = (if log = [] then image_reply else no_image_reply)"

definition fresh_session :: session where
  "fresh_session = initial_session None None None"

text \<open>The preview screen right after a capture.\<close>

definition captured_session :: session where
  "captured_session =
     fst (visit ai_every_item (fresh_session, []) [EnterPhotoBooth, CameraCapture sample_image])"

text \<open>The result screen after a batch of two eras whose second item failed.\<close>

definition partial_batch_session :: session where
  "partial_batch_session =
     fst (visit ai_first_item_only (fresh_session, [])
            [EnterPhotoBooth, CameraCapture sample_image, Generate [Era_VIKING, Era_CYBERPUNK]])"

text \<open>A collaborator that fails on its third request only.\<close>

definition ai_third_item_fails :: collaborator where
  "ai_third_item_fails log q = (if length log = 2 then no_image_reply else image_reply)"

text \<open>
  The preview screen, with the request log so far, reached by "Adjust Settings" from the
  result screen of a batch of three eras whose third item failed.
\<close>

definition stale_preview :: "session \<times> request list" where
  "stale_preview =
     visit ai_third_item_fails (fresh_session, [])
       [EnterPhotoBooth, CameraCapture sample_image,
        Generate [Era_VIKING, Era_CYBERPUNK, Era_MEDIEVAL], AdjustSettings]"

text \<open>
  A batch of two eras, both landed, the second thumbnail chosen, then "New Photo" on the
  result screen.
\<close>

definition new_photo_session :: session where
  "new_photo_session =
     fst (visit ai_every_item (fresh_session, [])
            [EnterPhotoBooth, CameraCapture sample_image, Generate [Era_VIKING, Era_CYBERPUNK],
             Thumbnail 1, NewPhoto])"

text \<open>
  A canvas interface for examples: drawing over the black fill keeps the colour bytes of
  the layer and makes every pixel opaque.
\<close>

fun opaque_over_black :: "byte list \<Rightarrow> byte list" where
  "opaque_over_black (r # g # b # a # rest) = r # g # b # 255 # opaque_over_black rest"
| "opaque_over_black rest = rest"

definition sample_api :: canvas_api where
  "sample_api =
     \<lparr>getContext2d = True, drawnOverBlack = opaque_over_black,
      toDataURL = (\<lambda>data. ''data:image/png;base64,TUFTSw=='')\<rparr>"

text \<open>A visual canvas of two pixels: one under a stroke, one untouched.\<close>

definition sample_editor :: editor where
  "sample_editor =
     \<lparr>prompt = ''replace with a hat'', hasDrawn = True,
      canvas = Some [128, 0, 50, 128, 0, 0, 0, 0]\<rparr>"

text \<open>The visit after "New Photo", continued by a second capture.\<close>

definition recaptured_session :: session where
  "recaptured_session =
     fst (visit ai_every_item (new_photo_session, [])
            [EnterPhotoBooth, CameraCapture sample_image])"

text \<open>Pixel data as read back from the mask canvas: a pixel under a stroke, a pixel of the fill.\<close>

definition sample_pixels :: "byte list" where
  "sample_pixels = [128, 0, 50, 255, 0, 0, 0, 255]"

section \<open>Properties\<close>

subsection \<open>Request builder\<close>

lemmas ImageStyle_defs =
  ImageStyle_REALISTIC_def ImageStyle_CINEMATIC_def ImageStyle_VINTAGE_def
  ImageStyle_PAINTING_def ImageStyle_CYBER_def ImageStyle_SKETCH_def ImageStyle_STUDIO_def
  ImageStyle_STEAMPUNK_def ImageStyle_ART_DECO_def ImageStyle_RETRO_FUTURISM_def

lemma ImageStyle_members_distinct: "distinct ImageStyle_members"
  by (simp add: ImageStyle_members_def ImageStyle_defs)

lemma getStylePrompt_members_distinct: "distinct (map getStylePrompt ImageStyle_members)"
  by (simp add: ImageStyle_members_def getStylePrompt_def ImageStyle_defs)

lemma getStylePrompt_default:
  "style \<notin> set ImageStyle_members \<Longrightarrow>
   getStylePrompt style = ''Photorealistic, natural lighting, sharp focus, true to life colors.''"
  by (simp add: ImageStyle_members_def getStylePrompt_def)

lemma getStylePrompt_REALISTIC:
  "getStylePrompt ImageStyle_REALISTIC =
     ''Photorealistic, natural lighting, sharp focus, true to life colors.''"
  by (simp add: getStylePrompt_def ImageStyle_defs)

lemma getResolutionPrompt_template:
  "getResolutionPrompt res d =
     resolution_base res @ '' Ensure the image has '' @
     (if d < 30 then ''soft edges, smooth textures, dreamy quality''
      else if d > 70 then
        ''intricate micro-details, hyper-realistic textures, extremely sharp edges, high fidelity''
      else ''balanced details'') @ ''.''"
  by (simp add: getResolutionPrompt_def resolution_base_def Let_def)

text \<open>
  C7: for a detail level \<open>d\<close> from 0 to 100 the builder's text is the clause of the
  resolution tier, which does not depend on \<open>d\<close>, followed by the detail clause: the soft
  one below 30, the high-fidelity one above 70, the balanced one from 30 to 70. The tier
  clause is the high-quality one for \<^verbatim>\<open>Resolution.HIGH\<close>, the 4K one for
  \<^verbatim>\<open>Resolution.ULTRA_4K\<close> and the standard one for any other value.
\<close>

theorem getResolutionPrompt_tier_and_detail:
  assumes "0 \<le> d" and "d \<le> 100"
  shows
    "(d < 30 \<longrightarrow> getResolutionPrompt res d =
        resolution_base res @ '' Ensure the image has soft edges, smooth textures, dreamy quality.'')
     \<and> (70 < d \<longrightarrow> getResolutionPrompt res d =
        resolution_base res @
        '' Ensure the image has intricate micro-details, hyper-realistic textures, extremely sharp edges, high fidelity.'')
     \<and> (30 \<le> d \<and> d \<le> 70 \<longrightarrow> getResolutionPrompt res d =
        resolution_base res @ '' Ensure the image has balanced details.'')
     \<and> resolution_base res =
        (if res = ''High Quality'' then ''High quality, detailed, sharp focus.''
         else if res = ''4K Ultra'' then
           ''4K resolution, ultra sharp, highly detailed, masterful quality.''
         else ''Standard resolution.'')"
  by (simp add: getResolutionPrompt_template)
    (simp add: resolution_base_def Resolution_HIGH_def Resolution_ULTRA_4K_def)

theorem getResolutionPrompt_tier_and_detail_witness:
  "(0::int) \<le> 10 \<and> (10::int) \<le> 100 \<and> (10::int) < 30 \<and>
   getResolutionPrompt Resolution_ULTRA_4K 10 =
     ''4K resolution, ultra sharp, highly detailed, masterful quality. Ensure the image has soft edges, smooth textures, dreamy quality.''
   \<and> (0::int) \<le> 80 \<and> (80::int) \<le> 100 \<and> (70::int) < 80 \<and>
   getResolutionPrompt Resolution_HIGH 80 =
     ''High quality, detailed, sharp focus. Ensure the image has intricate micro-details, hyper-realistic textures, extremely sharp edges, high fidelity.''
   \<and> (0::int) \<le> 50 \<and> (30::int) \<le> 50 \<and> (50::int) \<le> 70 \<and> (50::int) \<le> 100 \<and>
   getResolutionPrompt Resolution_STANDARD 50 =
     ''Standard resolution. Ensure the image has balanced details.''"
proof -
  have a: "(0::int) \<le> 10" and b: "(10::int) \<le> 100" by simp_all
  have c: "(0::int) \<le> 80" and d: "(80::int) \<le> 100" by simp_all
  have e: "(0::int) \<le> 50" and f: "(50::int) \<le> 100" by simp_all
  show ?thesis
    using getResolutionPrompt_tier_and_detail [OF a b, of Resolution_ULTRA_4K]
      getResolutionPrompt_tier_and_detail [OF c d, of Resolution_HIGH]
      getResolutionPrompt_tier_and_detail [OF e f, of Resolution_STANDARD]
    by (simp add: Resolution_HIGH_def Resolution_ULTRA_4K_def Resolution_STANDARD_def)
qed

text \<open>
  C8: \<^verbatim>\<open>getStylePrompt\<close> answers every string with a clause, which is never empty; on
  the ten members of the enum \<^verbatim>\<open>ImageStyle\<close> it is injective; and a string that is no
  member gets the clause of \<^verbatim>\<open>ImageStyle.REALISTIC\<close>, the photorealistic one.
\<close>

theorem getStylePrompt_total_injective_fallback:
  "getStylePrompt style \<noteq> []
   \<and> inj_on getStylePrompt (set ImageStyle_members)
   \<and> (style \<notin> set ImageStyle_members \<longrightarrow>
        getStylePrompt style = getStylePrompt ImageStyle_REALISTIC)
   \<and> getStylePrompt ImageStyle_REALISTIC =
        ''Photorealistic, natural lighting, sharp focus, true to life colors.''"
proof (intro conjI)
  show "getStylePrompt style \<noteq> []"
    by (simp add: getStylePrompt_def)
  show "inj_on getStylePrompt (set ImageStyle_members)"
    using getStylePrompt_members_distinct ImageStyle_members_distinct
    by (simp add: distinct_map)
  show "style \<notin> set ImageStyle_members \<longrightarrow>
        getStylePrompt style = getStylePrompt ImageStyle_REALISTIC"
    by (simp add: getStylePrompt_default getStylePrompt_REALISTIC)
  show "getStylePrompt ImageStyle_REALISTIC =
        ''Photorealistic, natural lighting, sharp focus, true to life colors.''"
    by (rule getStylePrompt_REALISTIC)
qed

theorem getStylePrompt_total_injective_fallback_witness:
  "''Watercolor'' \<notin> set ImageStyle_members
   \<and> getStylePrompt ''Watercolor'' =
       ''Photorealistic, natural lighting, sharp focus, true to life colors.''
   \<and> ImageStyle_CINEMATIC \<in> set ImageStyle_members
   \<and> ImageStyle_SKETCH \<in> set ImageStyle_members
   \<and> ImageStyle_CINEMATIC \<noteq> ImageStyle_SKETCH
   \<and> getStylePrompt ImageStyle_CINEMATIC \<noteq> getStylePrompt ImageStyle_SKETCH"
proof -
  have out: "''Watercolor'' \<notin> set ImageStyle_members"
    by (simp add: ImageStyle_members_def ImageStyle_defs)
  have ins: "ImageStyle_CINEMATIC \<in> set ImageStyle_members"
    "ImageStyle_SKETCH \<in> set ImageStyle_members"
    by (simp_all add: ImageStyle_members_def)
  have ne: "ImageStyle_CINEMATIC \<noteq> ImageStyle_SKETCH"
    by (simp add: ImageStyle_defs)
  from getStylePrompt_total_injective_fallback [of "''Watercolor''"] out
  have fb: "getStylePrompt ''Watercolor'' =
       ''Photorealistic, natural lighting, sharp focus, true to life colors.''"
    by simp
  from getStylePrompt_total_injective_fallback [of "''Watercolor''"]
  have "inj_on getStylePrompt (set ImageStyle_members)" by simp
  with ins ne have "getStylePrompt ImageStyle_CINEMATIC \<noteq> getStylePrompt ImageStyle_SKETCH"
    by (auto dest: inj_onD)
  with out fb ins ne show ?thesis by simp
qed

subsection \<open>Batch pipeline\<close>

lemma cleanBase64_sample_image: "cleanBase64 sample_image = ''QUJD''"
  by (simp add: cleanBase64_def sample_image_def)

lemma stf_le: "succeeds_then_fails ai log qs k \<Longrightarrow> k \<le> length qs"
  by (induction ai log qs k rule: succeeds_then_fails.induct) auto

lemma timeTravel_eq:
  "timeTravel ai log img e st res d =
    (case image_of_reply (ai log (timeTravel_request img e st res d)) of
       Some url \<Rightarrow> (Inr url, log @ [timeTravel_request img e st res d])
     | None \<Rightarrow> (Inl ''Failed to generate image. Please try again.'', log @ [timeTravel_request img e st res d]))"
  by (simp add: timeTravel_def processImage_def generateContent_def timeTravel_request_def split: option.splits)

lemma or_else_msg [simp]: "or_else ''Failed to generate image. Please try again.'' b = ''Failed to generate image. Please try again.''"
  by (simp add: or_else_def)

lemma loop_stf:
  "succeeds_then_fails ai log (map (\<lambda>e. timeTravel_request img e st res d) eras) k \<Longrightarrow>
   generatedResults s = results \<Longrightarrow>
   length (generatedResults (fst (journey_loop ai img st res d eras results s log))) = length results + k
   \<and> state (fst (journey_loop ai img st res d eras results s log)) =
        (if k = length eras \<or> length results + k > 0 then RESULT else PREVIEW)
   \<and> error (fst (journey_loop ai img st res d eras results s log)) =
        (if k = length eras then error s else Some ''Failed to generate image. Please try again.'')"
proof (induction eras arbitrary: results s log k)
  case Nil
  then show ?case by simp
next
  case (Cons e eras)
  show ?case
  proof (cases k)
    case 0
    with Cons.prems show ?thesis
      by (auto simp: timeTravel_eq produces_image_def)
  next
    case (Suc k')
    with Cons.prems obtain url where
      u: "image_of_reply (ai log (timeTravel_request img e st res d)) = Some url"
      and r: "succeeds_then_fails ai (log @ [timeTravel_request img e st res d])
                (map (\<lambda>e. timeTravel_request img e st res d) eras) k'"
      by (auto simp: produces_image_def)
    let ?results = "results @ [\<lparr>era = e, imageUrl = url\<rparr>]"
    have "generatedResults (s\<lparr>generatedResults := ?results\<rparr>) = ?results" by simp
    from Cons.IH [OF r this] show ?thesis
      using u Suc by (simp add: timeTravel_eq Let_def)
  qed
qed


lemma stf_total: "\<exists>k. succeeds_then_fails ai log qs k"
proof (induction qs arbitrary: log)
  case Nil
  show ?case by simp
next
  case (Cons q qs)
  show ?case
  proof (cases "produces_image (ai log q)")
    case True
    from Cons [of "log @ [q]"] obtain k where "succeeds_then_fails ai (log @ [q]) qs k" ..
    with True have "succeeds_then_fails ai log (q # qs) (Suc k)" by simp
    then show ?thesis ..
  next
    case False
    then have "succeeds_then_fails ai log (q # qs) 0" by simp
    then show ?thesis ..
  qed
qed

lemma stf_unique:
  "succeeds_then_fails ai log qs k \<Longrightarrow> succeeds_then_fails ai log qs k' \<Longrightarrow> k = k'"
proof (induction ai log qs k arbitrary: k' rule: succeeds_then_fails.induct)
  case (1 ai log k)
  then show ?case by simp
next
  case (2 ai log q qs)
  then show ?case by (cases k') auto
next
  case (3 ai log q qs k)
  then show ?case by (cases k') auto
qed

lemma stf_index:
  "succeeds_then_fails ai log qs k \<longleftrightarrow>
     k \<le> length qs \<and> (\<forall>i<k. produces_image (ai (log @ take i qs) (qs ! i))) \<and>
     (k < length qs \<longrightarrow> \<not> produces_image (ai (log @ take k qs) (qs ! k)))"
proof (induction ai log qs k rule: succeeds_then_fails.induct)
  case (1 ai log k)
  show ?case by auto
next
  case (2 ai log q qs)
  show ?case by simp
next
  case (3 ai log q qs k)
  show ?case
    by (auto simp add: 3 All_less_Suc2 simp del: All_less_Suc)
qed

lemma loop_results:
  "succeeds_then_fails ai log (map (\<lambda>e. timeTravel_request img e st res d) eras) k \<Longrightarrow>
   generatedResults s = results \<Longrightarrow>
   generatedResults (fst (journey_loop ai img st res d eras results s log)) =
     results @ map (landed ai log (\<lambda>e. timeTravel_request img e st res d) eras) [0..<k]
   \<and> snd (journey_loop ai img st res d eras results s log) =
       log @ map (\<lambda>e. timeTravel_request img e st res d) (take (Suc k) eras)"
proof (induction eras arbitrary: results s log k)
  case Nil
  then show ?case by simp
next
  case (Cons e eras)
  show ?case
  proof (cases k)
    case 0
    with Cons.prems show ?thesis
      by (auto simp: timeTravel_eq produces_image_def)
  next
    case (Suc k')
    with Cons.prems obtain url where
      u: "image_of_reply (ai log (timeTravel_request img e st res d)) = Some url"
      and r: "succeeds_then_fails ai (log @ [timeTravel_request img e st res d])
                (map (\<lambda>e. timeTravel_request img e st res d) eras) k'"
      by (auto simp: produces_image_def)
    let ?results = "results @ [\<lparr>era = e, imageUrl = url\<rparr>]"
    have g: "generatedResults (s\<lparr>generatedResults := ?results\<rparr>) = ?results" by simp
    have sh: "map (landed ai log (\<lambda>e. timeTravel_request img e st res d) (e # eras)) [0..<Suc k']
          = \<lparr>era = e, imageUrl = url\<rparr> #
            map (landed ai (log @ [timeTravel_request img e st res d])
                   (\<lambda>e. timeTravel_request img e st res d) eras) [0..<k']"
      using u by (simp add: map_upt_Suc landed_def del: upt_Suc)
    from Cons.IH [OF r g] show ?thesis
      using u Suc sh by (simp add: timeTravel_eq Let_def del: upt_Suc)
  qed
qed

lemmas visit_defs = visit_def dispatch_def fresh_session_def initial_session_def
    startApp_def handleCapture_def handleStartJourney_def handleStartJourney_start_def reset_def
    result_shown_def timeTravel_def processImage_def generateContent_def
    image_reply_def no_image_reply_def image_of_reply_def or_else_def Let_def

lemma sample_image_nonempty [simp]: "sample_image \<noteq> []"
  by (simp add: sample_image_def)

lemma partial_batch_session_eq: "partial_batch_session = 
 \<lparr>state = RESULT, capturedImage = Some sample_image,
    generatedResults =
      [\<lparr>era = ''Viking Age'', imageUrl = ''data:image/png;base64,SU1H''\<rparr>],
    activeIndex = 0, analysisText = None,
    error = Some ''Failed to generate image. Please try again.'',
    selectedStyle = ''Photorealistic'', selectedResolution = ''Standard'',
    detailLevel = 50, customPrompt = [], activeFilter = ''none''\<rparr>"
  by (simp add: partial_batch_session_def visit_defs ai_first_item_only_def Era_VIKING_def ImageStyle_REALISTIC_def Resolution_STANDARD_def)

lemma new_photo_session_eq: "new_photo_session = 
 \<lparr>state = HOME, capturedImage = None, generatedResults = [],
    activeIndex = 1, analysisText = None, error = None,
    selectedStyle = ''Photorealistic'', selectedResolution = ''Standard'',
    detailLevel = 50, customPrompt = [], activeFilter = ''none''\<rparr>"
  by (simp add: new_photo_session_def visit_defs ai_every_item_def Era_VIKING_def ImageStyle_REALISTIC_def Resolution_STANDARD_def)

lemma customEdit_eq:
  "customEdit ai log img p st res d =
    (case image_of_reply (ai log (customEdit_request img p st res d)) of
       Some url \<Rightarrow> (Inr url, log @ [customEdit_request img p st res d])
     | None \<Rightarrow> (Inl ''Failed to generate image. Please try again.'',
                 log @ [customEdit_request img p st res d]))"
  by (simp add: customEdit_def processImage_def generateContent_def customEdit_request_def
      split: option.splits)

lemma magicEdit_eq:
  "magicEdit ai log img maskUrl p =
    (case image_of_reply (ai log (magicEdit_request img maskUrl p)) of
       Some url \<Rightarrow> (Inr url, log @ [magicEdit_request img maskUrl p])
     | None \<Rightarrow> (Inl ''Failed to edit image. Please try again.'',
                 log @ [magicEdit_request img maskUrl p]))"
  by (simp add: magicEdit_def generateContent_def split: option.splits)

lemma stf_single:
  "succeeds_then_fails ai log [q] k \<longleftrightarrow>
     (if produces_image (ai log q) then k = 1 else k = 0)"
proof (cases k)
  case 0
  then show ?thesis by simp
next
  case (Suc n)
  then show ?thesis by (cases n) auto
qed

text \<open>
  C1: a batch run over \<open>N \<ge> 1\<close> items, started with an image captured, in which the
  collaborator succeeds on the items 1 to \<open>k\<close> and fails on item \<open>k + 1\<close>
  (\<open>0 \<le> k \<le> N\<close>), ends with exactly \<open>k\<close> results, in the phase \<^verbatim>\<open>RESULT\<close> when
  \<open>k \<ge> 1\<close> and in \<^verbatim>\<open>PREVIEW\<close>, the phase the run was started from, when \<open>k = 0\<close>,
  and with the error set exactly when \<open>k < N\<close>. It holds for the batch of eras
  (\<^verbatim>\<open>handleStartJourney\<close>) and for the two single-item runs, the custom edit and the
  masked edit (\<open>N = 1\<close>).
\<close>

theorem batch_outcome:
  assumes "capturedImage s = Some img" and "img \<noteq> []"
  shows
    "(eras \<noteq> [] \<and>
      succeeds_then_fails ai log
        (map (\<lambda>e. timeTravel_request img e (selectedStyle s) (selectedResolution s)
                 (detailLevel s)) eras) k \<longrightarrow>
        length (generatedResults (fst (handleStartJourney ai log eras s))) = k
        \<and> state (fst (handleStartJourney ai log eras s)) = (if 1 \<le> k then RESULT else PREVIEW)
        \<and> (error (fst (handleStartJourney ai log eras s)) \<noteq> None \<longleftrightarrow> k < length eras))
     \<and> (succeeds_then_fails ai log
          [customEdit_request img p (selectedStyle s) (selectedResolution s) (detailLevel s)] k \<longrightarrow>
        length (generatedResults (fst (handleCustomEdit ai log p s))) = k
        \<and> state (fst (handleCustomEdit ai log p s)) = (if 1 \<le> k then RESULT else PREVIEW)
        \<and> (error (fst (handleCustomEdit ai log p s)) \<noteq> None \<longleftrightarrow> k < 1))
     \<and> (succeeds_then_fails ai log [magicEdit_request img maskUrl p] k \<longrightarrow>
        length (generatedResults (fst (handleMagicEditProcess ai log maskUrl p s))) = k
        \<and> state (fst (handleMagicEditProcess ai log maskUrl p s)) =
            (if 1 \<le> k then RESULT else PREVIEW)
        \<and> (error (fst (handleMagicEditProcess ai log maskUrl p s)) \<noteq> None \<longleftrightarrow> k < 1))"
proof (intro conjI impI)
  let ?rq = "\<lambda>e. timeTravel_request img e (selectedStyle s) (selectedResolution s) (detailLevel s)"
  assume a: "eras \<noteq> [] \<and> succeeds_then_fails ai log (map ?rq eras) k"
  then have ne: "eras \<noteq> []" and run: "succeeds_then_fails ai log (map ?rq eras) k"
    by simp_all
  have j: "handleStartJourney ai log eras s =
      journey_loop ai img (selectedStyle s) (selectedResolution s) (detailLevel s) eras []
        (handleStartJourney_start s) log"
    using assms ne by (simp add: handleStartJourney_def)
  have g: "generatedResults (handleStartJourney_start s) = []"
    and e: "error (handleStartJourney_start s) = None"
    by (simp_all add: handleStartJourney_start_def)
  from stf_le [OF run] have kle: "k \<le> length eras" by simp
  note l = loop_stf [OF run g, unfolded e, folded j]
  show "length (generatedResults (fst (handleStartJourney ai log eras s))) = k"
    using l by simp
  show "state (fst (handleStartJourney ai log eras s)) = (if 1 \<le> k then RESULT else PREVIEW)"
    using l ne kle by (cases k) auto
  show "error (fst (handleStartJourney ai log eras s)) \<noteq> None \<longleftrightarrow> k < length eras"
    using l kle by auto
next
  assume "succeeds_then_fails ai log
          [customEdit_request img p (selectedStyle s) (selectedResolution s) (detailLevel s)] k"
  then have k: "if produces_image (ai log (customEdit_request img p (selectedStyle s)
                   (selectedResolution s) (detailLevel s))) then k = 1 else k = 0"
    by (simp only: stf_single)
  then show "length (generatedResults (fst (handleCustomEdit ai log p s))) = k"
    "state (fst (handleCustomEdit ai log p s)) = (if 1 \<le> k then RESULT else PREVIEW)"
    "error (fst (handleCustomEdit ai log p s)) \<noteq> None \<longleftrightarrow> k < 1"
    using assms
    by (auto simp: handleCustomEdit_def handleCustomEdit_start_def customEdit_eq
        produces_image_def Let_def split: if_splits option.splits)
next
  assume "succeeds_then_fails ai log [magicEdit_request img maskUrl p] k"
  then have k: "if produces_image (ai log (magicEdit_request img maskUrl p)) then k = 1 else k = 0"
    by (simp only: stf_single)
  then show "length (generatedResults (fst (handleMagicEditProcess ai log maskUrl p s))) = k"
    "state (fst (handleMagicEditProcess ai log maskUrl p s)) =
       (if 1 \<le> k then RESULT else PREVIEW)"
    "error (fst (handleMagicEditProcess ai log maskUrl p s)) \<noteq> None \<longleftrightarrow> k < 1"
    using assms
    by (auto simp: handleMagicEditProcess_def handleMagicEditProcess_start_def magicEdit_eq
        produces_image_def or_else_def Let_def split: if_splits option.splits)
qed


lemma captured_session_eq:
  "captured_session =
    \<lparr>state = PREVIEW, capturedImage = Some sample_image, generatedResults = [],
     activeIndex = 0, analysisText = None, error = None,
     selectedStyle = ''Photorealistic'', selectedResolution = ''Standard'',
     detailLevel = 50, customPrompt = [], activeFilter = ''none''\<rparr>"
  by (simp add: captured_session_def visit_defs ImageStyle_REALISTIC_def
      Resolution_STANDARD_def)

lemmas reply_defs = produces_image_def image_of_reply_def image_reply_def no_image_reply_def

theorem batch_outcome_witness:
  "capturedImage captured_session = Some sample_image \<and> sample_image \<noteq> []
   \<and> [Era_VIKING, Era_CYBERPUNK] \<noteq> []
   \<and> succeeds_then_fails ai_first_item_only []
        (map (\<lambda>e. timeTravel_request sample_image e (selectedStyle captured_session)
                 (selectedResolution captured_session) (detailLevel captured_session))
           [Era_VIKING, Era_CYBERPUNK]) 1
   \<and> length (generatedResults
        (fst (handleStartJourney ai_first_item_only [] [Era_VIKING, Era_CYBERPUNK]
                captured_session))) = 1
   \<and> state (fst (handleStartJourney ai_first_item_only [] [Era_VIKING, Era_CYBERPUNK]
                captured_session)) = RESULT
   \<and> error (fst (handleStartJourney ai_first_item_only [] [Era_VIKING, Era_CYBERPUNK]
                captured_session)) \<noteq> None
   \<and> succeeds_then_fails ai_first_item_only []
        [customEdit_request sample_image ''make it snow'' (selectedStyle captured_session)
           (selectedResolution captured_session) (detailLevel captured_session)] 1
   \<and> length (generatedResults
        (fst (handleCustomEdit ai_first_item_only [] ''make it snow'' captured_session))) = 1
   \<and> state (fst (handleCustomEdit ai_first_item_only [] ''make it snow'' captured_session))
        = RESULT
   \<and> error (fst (handleCustomEdit ai_first_item_only [] ''make it snow'' captured_session))
        = None
   \<and> succeeds_then_fails ai_first_item_only [magicEdit_request sample_image [] []]
        [magicEdit_request sample_image ''data:image/png;base64,TUFTSw=='' ''a hat''] 0
   \<and> length (generatedResults
        (fst (handleMagicEditProcess ai_first_item_only [magicEdit_request sample_image [] []]
               ''data:image/png;base64,TUFTSw=='' ''a hat'' captured_session))) = 0
   \<and> state (fst (handleMagicEditProcess ai_first_item_only
               [magicEdit_request sample_image [] []]
               ''data:image/png;base64,TUFTSw=='' ''a hat'' captured_session)) = PREVIEW
   \<and> error (fst (handleMagicEditProcess ai_first_item_only
               [magicEdit_request sample_image [] []]
               ''data:image/png;base64,TUFTSw=='' ''a hat'' captured_session)) \<noteq> None"
proof -
  have h1: "capturedImage captured_session = Some sample_image"
    by (simp add: captured_session_eq)
  have h2: "sample_image \<noteq> []" by simp
  have r1: "succeeds_then_fails ai_first_item_only []
        (map (\<lambda>e. timeTravel_request sample_image e (selectedStyle captured_session)
                 (selectedResolution captured_session) (detailLevel captured_session))
           [Era_VIKING, Era_CYBERPUNK]) 1"
    by (simp add: ai_first_item_only_def reply_defs)
  have r2: "succeeds_then_fails ai_first_item_only []
        [customEdit_request sample_image ''make it snow'' (selectedStyle captured_session)
           (selectedResolution captured_session) (detailLevel captured_session)] 1"
    by (simp add: ai_first_item_only_def reply_defs)
  have r3: "succeeds_then_fails ai_first_item_only [magicEdit_request sample_image [] []]
        [magicEdit_request sample_image ''data:image/png;base64,TUFTSw=='' ''a hat''] 0"
    by (simp add: ai_first_item_only_def reply_defs)
  note t1 = batch_outcome [OF h1 h2, where eras = "[Era_VIKING, Era_CYBERPUNK]"
      and ai = ai_first_item_only and log = "[]" and k = 1 and p = "''make it snow''"]
  note t2 = batch_outcome [OF h1 h2, where ai = ai_first_item_only
      and log = "[magicEdit_request sample_image [] []]" and k = 0
      and maskUrl = "''data:image/png;base64,TUFTSw==''" and p = "''a hat''"]
  from t1 r1 r2 have
    "length (generatedResults
        (fst (handleStartJourney ai_first_item_only [] [Era_VIKING, Era_CYBERPUNK]
                captured_session))) = 1
     \<and> state (fst (handleStartJourney ai_first_item_only [] [Era_VIKING, Era_CYBERPUNK]
                captured_session)) = RESULT
     \<and> error (fst (handleStartJourney ai_first_item_only [] [Era_VIKING, Era_CYBERPUNK]
                captured_session)) \<noteq> None
     \<and> length (generatedResults
        (fst (handleCustomEdit ai_first_item_only [] ''make it snow'' captured_session))) = 1
     \<and> state (fst (handleCustomEdit ai_first_item_only [] ''make it snow'' captured_session))
        = RESULT
     \<and> error (fst (handleCustomEdit ai_first_item_only [] ''make it snow'' captured_session))
        = None"
    by simp
  moreover from t2 r3 have
    "length (generatedResults
        (fst (handleMagicEditProcess ai_first_item_only [magicEdit_request sample_image [] []]
               ''data:image/png;base64,TUFTSw=='' ''a hat'' captured_session))) = 0
     \<and> state (fst (handleMagicEditProcess ai_first_item_only
               [magicEdit_request sample_image [] []]
               ''data:image/png;base64,TUFTSw=='' ''a hat'' captured_session)) = PREVIEW
     \<and> error (fst (handleMagicEditProcess ai_first_item_only
               [magicEdit_request sample_image [] []]
               ''data:image/png;base64,TUFTSw=='' ''a hat'' captured_session)) \<noteq> None"
    by simp
  ultimately show ?thesis using h1 h2 r1 r2 r3 by simp
qed

text \<open>
  C2: in a batch run the results are the items that succeeded, in the order of the
  request list, result \<open>i\<close> carrying the label of item \<open>i\<close> and the image of the reply to
  item \<open>i\<close>; every item before the first failure is among them. The run is sequential:
  the collaborator received one request per item, in the order of the items, the reply to
  item \<open>i\<close> was settled when the requests of the items before it, and no other, had been
  issued, and no request was issued after the one that failed.
\<close>

theorem batch_order:
  assumes "capturedImage s = Some img" and "img \<noteq> []" and "eras \<noteq> []"
    and "rq = (\<lambda>e. timeTravel_request img e (selectedStyle s) (selectedResolution s)
                 (detailLevel s))"
    and "s' = fst (handleStartJourney ai log eras s)"
    and "k = length (generatedResults s')"
  shows
    "k \<le> length eras
     \<and> (\<forall>i<k. era (generatedResults s' ! i) = eras ! i
              \<and> produces_image (ai (log @ map rq (take i eras)) (rq (eras ! i)))
              \<and> Some (imageUrl (generatedResults s' ! i)) =
                  image_of_reply (ai (log @ map rq (take i eras)) (rq (eras ! i))))
     \<and> (k < length eras \<longrightarrow>
          \<not> produces_image (ai (log @ map rq (take k eras)) (rq (eras ! k))))
     \<and> snd (handleStartJourney ai log eras s) = log @ map rq (take (Suc k) eras)"
proof -
  obtain n where run: "succeeds_then_fails ai log (map rq eras) n"
    using stf_total by blast
  have j: "handleStartJourney ai log eras s =
      journey_loop ai img (selectedStyle s) (selectedResolution s) (detailLevel s) eras []
        (handleStartJourney_start s) log"
    using assms(1-3) by (simp add: handleStartJourney_def)
  have g: "generatedResults (handleStartJourney_start s) = []"
    by (simp add: handleStartJourney_start_def)
  from loop_results [OF run [unfolded assms(4)] g, folded j, folded assms(4)]
  have res: "generatedResults s' = map (landed ai log rq eras) [0..<n]"
    and lg: "snd (handleStartJourney ai log eras s) = log @ map rq (take (Suc n) eras)"
    by (simp_all add: assms(5))
  from res have kn: "k = n" by (simp add: assms(6))
  from run have ix: "n \<le> length eras"
    "\<forall>i<n. produces_image (ai (log @ map rq (take i eras)) (rq (eras ! i)))"
    "n < length eras \<longrightarrow> \<not> produces_image (ai (log @ map rq (take n eras)) (rq (eras ! n)))"
    by (auto simp add: stf_index take_map)
  show ?thesis
    using ix lg unfolding kn res
    by (auto simp: landed_def produces_image_def)
qed


theorem batch_order_witness:
  "capturedImage captured_session = Some sample_image \<and> sample_image \<noteq> []
   \<and> [Era_VIKING, Era_CYBERPUNK] \<noteq> []
   \<and> length (generatedResults
         (fst (handleStartJourney ai_first_item_only [] [Era_VIKING, Era_CYBERPUNK]
                 captured_session))) = 1
   \<and> (0::nat) < 1
   \<and> era (generatedResults
         (fst (handleStartJourney ai_first_item_only [] [Era_VIKING, Era_CYBERPUNK]
                 captured_session)) ! 0) = ''Viking Age''
   \<and> (1::nat) < length [Era_VIKING, Era_CYBERPUNK]
   \<and> \<not> produces_image (ai_first_item_only
           [timeTravel_request sample_image Era_VIKING ''Photorealistic'' ''Standard'' 50]
           (timeTravel_request sample_image Era_CYBERPUNK ''Photorealistic'' ''Standard'' 50))
   \<and> snd (handleStartJourney ai_first_item_only [] [Era_VIKING, Era_CYBERPUNK]
           captured_session) =
       [timeTravel_request sample_image Era_VIKING ''Photorealistic'' ''Standard'' 50,
        timeTravel_request sample_image Era_CYBERPUNK ''Photorealistic'' ''Standard'' 50]"
proof -
  have h1: "capturedImage captured_session = Some sample_image"
    by (simp add: captured_session_eq)
  have h2: "sample_image \<noteq> []" by simp
  have h3: "[Era_VIKING, Era_CYBERPUNK] \<noteq> []" by simp
  have len: "length (generatedResults
         (fst (handleStartJourney ai_first_item_only [] [Era_VIKING, Era_CYBERPUNK]
                 captured_session))) = 1"
    by (simp add: handleStartJourney_def handleStartJourney_start_def captured_session_eq
        timeTravel_eq ai_first_item_only_def reply_defs)
  note t = batch_order [OF h1 h2 h3 refl refl refl, where ai = ai_first_item_only
      and log = "[]", unfolded len]
  from t have "era (generatedResults
         (fst (handleStartJourney ai_first_item_only [] [Era_VIKING, Era_CYBERPUNK]
                 captured_session)) ! 0) = ''Viking Age''"
    by (simp add: Era_VIKING_def)
  moreover from t have "\<not> produces_image (ai_first_item_only
           [timeTravel_request sample_image Era_VIKING ''Photorealistic'' ''Standard'' 50]
           (timeTravel_request sample_image Era_CYBERPUNK ''Photorealistic'' ''Standard'' 50))"
    by (simp add: captured_session_eq)
  moreover from t have "snd (handleStartJourney ai_first_item_only []
           [Era_VIKING, Era_CYBERPUNK] captured_session) =
       [timeTravel_request sample_image Era_VIKING ''Photorealistic'' ''Standard'' 50,
        timeTravel_request sample_image Era_CYBERPUNK ''Photorealistic'' ''Standard'' 50]"
    by (simp add: captured_session_eq)
  ultimately show ?thesis using h1 h2 len by simp
qed

subsection \<open>Session transitions\<close>

lemma recaptured_session_eq:
  "recaptured_session =
    \<lparr>state = PREVIEW, capturedImage = Some sample_image, generatedResults = [],
     activeIndex = 1, analysisText = None, error = None,
     selectedStyle = ''Photorealistic'', selectedResolution = ''Standard'',
     detailLevel = 50, customPrompt = [], activeFilter = ''none''\<rparr>"
  by (simp add: recaptured_session_def new_photo_session_eq visit_defs)

lemma reset_fields:
  "state (reset s) = HOME \<and> capturedImage (reset s) = None \<and> generatedResults (reset s) = []
   \<and> analysisText (reset s) = None \<and> error (reset s) = error s
   \<and> activeIndex (reset s) = activeIndex s"
  by (simp add: reset_def)

lemma handleCapture_fields:
  "state (handleCapture img s) = PREVIEW \<and> capturedImage (handleCapture img s) = Some img
   \<and> generatedResults (handleCapture img s) = [] \<and> error (handleCapture img s) = None
   \<and> activeIndex (handleCapture img s) = activeIndex s"
  by (simp add: handleCapture_def)

lemma run_starts_reset_activeIndex:
  "activeIndex (handleRestore_start s) = 0 \<and> activeIndex (handleStartJourney_start s) = 0
   \<and> activeIndex (handleCustomEdit_start s) = 0
   \<and> activeIndex (handleMagicEditProcess_start s) = 0"
  by (simp add: handleRestore_start_def handleStartJourney_start_def handleCustomEdit_start_def
      handleMagicEditProcess_start_def)

text \<open>
  C3: "New Photo" on the result screen of a batch whose second item failed. The reset
  clears the source image and the results and goes to \<^verbatim>\<open>HOME\<close>; the error of the
  failed item is still set afterwards (\<^verbatim>\<open>reset\<close> has no \<^verbatim>\<open>setError(null)\<close>, which
  \<^verbatim>\<open>handleCapture\<close> has).
\<close>

theorem reset_leaves_error:
  "state partial_batch_session = RESULT
   \<and> error partial_batch_session = Some ''Failed to generate image. Please try again.''
   \<and> fst (visit ai_first_item_only (partial_batch_session, []) [NewPhoto]) =
       reset partial_batch_session
   \<and> state (reset partial_batch_session) = HOME
   \<and> capturedImage (reset partial_batch_session) = None
   \<and> generatedResults (reset partial_batch_session) = []
   \<and> error (reset partial_batch_session) = Some ''Failed to generate image. Please try again.''"
  by (simp add: partial_batch_session_eq visit_def dispatch_def result_shown_def reset_def)

lemma decimal_2: "decimal (Suc (Suc 0)) = ''2''"
  by (subst decimal.simps) simp

lemma stale_preview_session:
  "fst stale_preview =
    \<lparr>state = PREVIEW, capturedImage = Some sample_image,
     generatedResults =
       [\<lparr>era = ''Viking Age'', imageUrl = ''data:image/png;base64,SU1H''\<rparr>,
        \<lparr>era = ''Cyberpunk Future'', imageUrl = ''data:image/png;base64,SU1H''\<rparr>],
     activeIndex = 0, analysisText = None,
     error = Some ''Failed to generate image. Please try again.'',
     selectedStyle = ''Photorealistic'', selectedResolution = ''Standard'',
     detailLevel = 50, customPrompt = [], activeFilter = ''none''\<rparr>"
  by (simp add: stale_preview_def visit_defs ai_third_item_fails_def Era_VIKING_def
      Era_CYBERPUNK_def ImageStyle_REALISTIC_def Resolution_STANDARD_def)

lemma stale_preview_log: "length (snd stale_preview) = 3"
  by (simp add: stale_preview_def visit_defs ai_third_item_fails_def)

lemma handleAnalyze_results:
  "generatedResults (fst (handleAnalyze ai log s)) = generatedResults s"
  by (simp add: handleAnalyze_def handleAnalyze_start_def analyzeImage_def generateContent_def
      Let_def split: option.splits reply.splits)

lemma stale_preview_analyze:
  "fst (dispatch ai_third_item_fails stale_preview Analyze) =
     (handleAnalyze_start (fst stale_preview))
       \<lparr>analysisText := Some ''two scratches'', state := PREVIEW\<rparr>"
  by (simp add: dispatch_def stale_preview_session handleAnalyze_def analyzeImage_def
      generateContent_def ai_third_item_fails_def stale_preview_log image_reply_def
      or_else_def Let_def)

lemma run_starts_clear_results:
  "generatedResults (handleRestore_start s) = []
   \<and> generatedResults (handleStartJourney_start s) = []
   \<and> generatedResults (handleCustomEdit_start s) = []
   \<and> generatedResults (handleMagicEditProcess_start s) = []"
  by (simp add: handleRestore_start_def handleStartJourney_start_def handleCustomEdit_start_def
      handleMagicEditProcess_start_def)

text \<open>
  C4: "Analyze" on the preview screen that still holds the two results and the error of a
  batch whose third item failed. \<^verbatim>\<open>handleAnalyze\<close> enters \<^verbatim>\<open>PROCESSING\<close> with the
  error cleared and both results in place (it has no \<^verbatim>\<open>setGeneratedResults([])\<close>, which
  the four runs have), so the loading screen reports the second era of a batch; the
  session it ends in is the one it entered \<^verbatim>\<open>PROCESSING\<close> with, the analysis text set
  and the phase back to \<^verbatim>\<open>PREVIEW\<close>, the results still there.
\<close>

theorem analyze_enters_processing_with_results:
  "state (fst stale_preview) = PREVIEW
   \<and> capturedImage (fst stale_preview) = Some sample_image
   \<and> error (fst stale_preview) = Some ''Failed to generate image. Please try again.''
   \<and> length (generatedResults (fst stale_preview)) = 2
   \<and> state (handleAnalyze_start (fst stale_preview)) = PROCESSING
   \<and> error (handleAnalyze_start (fst stale_preview)) = None
   \<and> length (generatedResults (handleAnalyze_start (fst stale_preview))) = 2
   \<and> renderLoadingState_caption False (handleAnalyze_start (fst stale_preview)) =
       ''Materializing Era 2...''
   \<and> fst (dispatch ai_third_item_fails stale_preview Analyze) =
       (handleAnalyze_start (fst stale_preview))
         \<lparr>analysisText := Some ''two scratches'', state := PREVIEW\<rparr>
   \<and> state (fst (dispatch ai_third_item_fails stale_preview Analyze)) = PREVIEW
   \<and> error (fst (dispatch ai_third_item_fails stale_preview Analyze)) = None
   \<and> length (generatedResults (fst (dispatch ai_third_item_fails stale_preview Analyze))) = 2"
  unfolding stale_preview_analyze
  by (simp add: stale_preview_session handleAnalyze_start_def renderLoadingState_caption_def
      decimal_2)

text \<open>
  C5: a batch of two eras lands both, the second thumbnail is chosen, then "New Photo".
  The reset empties the results and leaves \<^verbatim>\<open>activeIndex\<close> at 1, so the index is
  not below \<open>max 1 (length results)\<close> on the home screen, nor after the next capture,
  which does not assign it either (the four runs assign it together with the results).
\<close>

theorem reset_and_capture_leave_activeIndex:
  "generatedResults new_photo_session = []
   \<and> activeIndex new_photo_session = 1
   \<and> \<not> activeIndex new_photo_session < max 1 (length (generatedResults new_photo_session))
   \<and> generatedResults recaptured_session = []
   \<and> activeIndex recaptured_session = 1
   \<and> \<not> activeIndex recaptured_session < max 1 (length (generatedResults recaptured_session))"
  by (simp add: new_photo_session_eq recaptured_session_eq)

subsection \<open>Mask editor\<close>

lemma binarize_loop_length [simp]: "length (binarize_loop i data) = length data"
proof (induction i data rule: binarize_loop.induct)
  case (1 i data)
  show ?case
  proof (cases "i < length data")
    case True
    with 1 show ?thesis
      by (subst binarize_loop.simps) simp
  next
    case False
    then show ?thesis by (subst binarize_loop.simps) simp
  qed
qed

lemma binarize_loop_nth:
  "4 dvd i \<Longrightarrow> m < length data \<Longrightarrow>
   binarize_loop i data ! m =
     (if i \<le> m \<and> data ! (m - m mod 4) > 0 then 255 else data ! m)"
proof (induction i data rule: binarize_loop.induct)
  case (1 i data)
  show ?case
  proof (cases "i < length data")
    case False
    with "1.prems" show ?thesis by (subst binarize_loop.simps) simp
  next
    case True
    let ?data' = "if data ! i > 0
             then data[i := 255, i + 1 := 255, i + 2 := 255, i + 3 := 255]
             else data"
    have d4: "4 dvd (i + 4)" using "1.prems"(1) by simp
    have len: "m < length ?data'" using "1.prems"(2) by simp
    have step: "binarize_loop i data ! m = binarize_loop (i + 4) ?data' ! m"
      using True by (subst binarize_loop.simps) simp
    have ih: "binarize_loop (i + 4) ?data' ! m =
       (if i + 4 \<le> m \<and> ?data' ! (m - m mod 4) > 0 then 255 else ?data' ! m)"
      by (rule "1.IH" [OF True d4 len])
    have base_ge: "i + 4 \<le> m \<Longrightarrow> i + 4 \<le> m - m mod 4"
      using "1.prems"(1) by presburger
    have base_mid: "i \<le> m \<Longrightarrow> m < i + 4 \<Longrightarrow> m - m mod 4 = i"
      using "1.prems"(1) by presburger
    consider (lt) "m < i" | (mid) "i \<le> m" "m < i + 4" | (ge) "i + 4 \<le> m" by linarith
    then show ?thesis
    proof cases
      case lt
      then show ?thesis unfolding step ih by simp
    next
      case mid
      then have "m = i \<or> m = i + 1 \<or> m = i + 2 \<or> m = i + 3" by linarith
      with mid base_mid "1.prems"(2) show ?thesis unfolding step ih
        by (auto simp: nth_list_update)
    next
      case ge
      from base_ge [OF ge] have "?data' ! (m - m mod 4) = data ! (m - m mod 4)" by simp
      moreover have "?data' ! m = data ! m" using ge by simp
      ultimately show ?thesis unfolding step ih using ge by simp
    qed
  qed
qed

lemma binarize_length [simp]: "length (binarize data) = length data"
  by (simp add: binarize_def)

lemma binarize_nth:
  "m < length data \<Longrightarrow>
   binarize data ! m = (if data ! (m - m mod 4) > 0 then 255 else data ! m)"
  by (simp add: binarize_def binarize_loop_nth)

lemma pixel_bytes:
  assumes "4 * p + 4 \<le> length data"
  shows "pixel data p = [data ! (4 * p), data ! (4 * p + 1), data ! (4 * p + 2), data ! (4 * p + 3)]"
proof (rule nth_equalityI)
  show "length (pixel data p) = length [data ! (4 * p), data ! (4 * p + 1), data ! (4 * p + 2), data ! (4 * p + 3)]"
    using assms by (simp add: pixel_def)
next
  fix i assume "i < length (pixel data p)"
  then have "i < 4" by (simp add: pixel_def)
  then have "i = 0 \<or> i = 1 \<or> i = 2 \<or> i = 3" by linarith
  then show "pixel data p ! i = [data ! (4 * p), data ! (4 * p + 1), data ! (4 * p + 2), data ! (4 * p + 3)] ! i"
    using assms by (auto simp: pixel_def)
qed

lemma binarize_pixel:
  assumes "4 * p + 4 \<le> length data"
  shows "pixel (binarize data) p = (if data ! (4 * p) > 0 then white else pixel data p)"
proof -
  have m: "(4 * p) mod 4 = 0" "(4 * p + 1) mod 4 = 1" "(4 * p + 2) mod 4 = 2" "(4 * p + 3) mod 4 = 3"
    by presburger+
  have "4 * p < length data" "4 * p + 1 < length data" "4 * p + 2 < length data" "4 * p + 3 < length data"
    using assms by simp_all
  then show ?thesis
    using assms m by (simp add: pixel_bytes binarize_nth white_def)
qed

lemma ink_over_black_pixels:
  "ink_over_black data \<Longrightarrow> p < length data div 4 \<Longrightarrow>
   data ! (4 * p + 1) = 0 \<and> data ! (4 * p + 2) \<le> data ! (4 * p) \<and> data ! (4 * p + 3) = 255"
proof (induction data arbitrary: p rule: ink_over_black.induct)
  case 1
  then show ?case by simp
next
  case (2 r g b a rest)
  show ?case
  proof (cases p)
    case 0
    with "2.prems" show ?thesis by simp
  next
    case (Suc n)
    with "2.prems" have "ink_over_black rest" and "n < length rest div 4" by simp_all
    from "2.IH" [OF this] show ?thesis using Suc by (simp add: add.commute)
  qed
qed simp_all

lemma ink_over_black_length: "ink_over_black data \<Longrightarrow> 4 dvd length data"
proof (induction data rule: ink_over_black.induct)
  case (2 r g b a rest)
  then have "4 dvd length rest" by simp
  then have "4 dvd length rest + 4" by simp
  then show ?case by (simp add: numeral_eq_Suc)
qed simp_all

text \<open>
  C6: on every buffer the editor can read back from the mask canvas (the stroke colour
  over the black fill), the loop makes a pixel opaque white when one of its colour
  channels is not zero and leaves it opaque black otherwise, so that every pixel of the
  output, which has as many pixels as the input, is one of these two values.
\<close>

theorem binarize_two_valued:
  assumes "ink_over_black data" and "p < length data div 4"
  shows
    "length (binarize data) = length data
     \<and> (data ! (4 * p) \<noteq> 0 \<or> data ! (4 * p + 1) \<noteq> 0 \<or> data ! (4 * p + 2) \<noteq> 0 \<longrightarrow>
          pixel (binarize data) p = white)
     \<and> (data ! (4 * p) = 0 \<and> data ! (4 * p + 1) = 0 \<and> data ! (4 * p + 2) = 0 \<longrightarrow>
          pixel data p = black \<and> pixel (binarize data) p = black)
     \<and> (pixel (binarize data) p = white \<or> pixel (binarize data) p = black)"
proof -
  from ink_over_black_length [OF assms(1)] assms(2)
  have b: "4 * p + 4 \<le> length data" by (auto elim!: dvdE)
  note px = binarize_pixel [OF b]
  note ink = ink_over_black_pixels [OF assms]
  have pos: "data ! (4 * p) > 0 \<longleftrightarrow> data ! (4 * p) \<noteq> 0" by (simp add: word_neq_0_conv)
  have z: "data ! (4 * p) = 0 \<Longrightarrow> data ! (4 * p + 2) = 0" using ink by simp
  have blk: "data ! (4 * p) = 0 \<Longrightarrow> pixel data p = black"
    using ink z by (simp add: pixel_bytes [OF b] black_def)
  show ?thesis
  proof (cases "data ! (4 * p) = 0")
    case True
    with px blk ink z show ?thesis by simp
  next
    case False
    with px pos show ?thesis by simp
  qed
qed

theorem binarize_two_valued_witness:
  "ink_over_black sample_pixels \<and> (0::nat) < length sample_pixels div 4
   \<and> (1::nat) < length sample_pixels div 4
   \<and> sample_pixels ! (4 * 0) \<noteq> 0 \<and> pixel (binarize sample_pixels) 0 = white
   \<and> sample_pixels ! (4 * 1) = 0 \<and> sample_pixels ! (4 * 1 + 1) = 0
   \<and> sample_pixels ! (4 * 1 + 2) = 0
   \<and> pixel sample_pixels 1 = black \<and> pixel (binarize sample_pixels) 1 = black
   \<and> length (binarize sample_pixels) = 8"
proof -
  have len: "length sample_pixels = 8" by (simp add: sample_pixels_def)
  have h1: "ink_over_black sample_pixels" by (simp add: sample_pixels_def)
  have h2: "(0::nat) < length sample_pixels div 4" "(1::nat) < length sample_pixels div 4"
    by (simp_all add: len)
  have r: "sample_pixels ! (4 * 0) \<noteq> 0" "sample_pixels ! (4 * 1) = 0"
    "sample_pixels ! (4 * 1 + 1) = 0" "sample_pixels ! (4 * 1 + 2) = 0"
    by (simp_all add: sample_pixels_def)
  from binarize_two_valued [OF h1 h2(1)] r(1)
  have "pixel (binarize sample_pixels) 0 = white" by blast
  moreover from binarize_two_valued [OF h1 h2(2)] r(2-4)
  have "pixel sample_pixels 1 = black \<and> pixel (binarize sample_pixels) 1 = black" by blast
  moreover from binarize_two_valued [OF h1 h2(1)] len
  have "length (binarize sample_pixels) = 8" by simp
  ultimately show ?thesis using h1 h2 r by simp
qed

lemma dropWhile_all: "(\<forall>c \<in> set (dropWhile P xs). P c) \<longleftrightarrow> (\<forall>c \<in> set xs. P c)"
  by (induction xs) auto

lemma trim_empty: "trim str = [] \<longleftrightarrow> list_all is_space str"
  by (simp add: trim_def dropWhile_eq_Nil_conv list_all_iff dropWhile_all)

text \<open>
  C9: a click on the confirm button does nothing when no stroke has been drawn or the
  instruction is empty or all white space. With a stroke drawn, an instruction that is not
  all white space, the canvas mounted and a drawing context at hand, it thresholds the
  buffer once, writes it back, and hands the encoded mask and the instruction to
  \<^verbatim>\<open>onConfirm\<close>, in this order and nothing else.
\<close>

theorem confirm_gate:
  "((\<not> hasDrawn ed \<or> prompt ed = [] \<or> list_all is_space (prompt ed)) \<longrightarrow>
      confirm_click api ed = [])
   \<and> (hasDrawn ed \<and> \<not> list_all is_space (prompt ed) \<and> canvas ed = Some layer \<and>
       getContext2d api \<longrightarrow>
      confirm_click api ed =
        [PutImageData (binarize (drawnOverBlack api layer)),
         OnConfirm (toDataURL api (binarize (drawnOverBlack api layer))) (prompt ed)])"
proof -
  have e: "prompt ed = [] \<Longrightarrow> trim (prompt ed) = []" by (simp add: trim_empty)
  show ?thesis
    using e by (auto simp: confirm_click_def confirm_disabled_def handleSubmit_def trim_empty Let_def)
qed

theorem confirm_gate_witness:
  "hasDrawn sample_editor \<and> \<not> list_all is_space (prompt sample_editor)
   \<and> canvas sample_editor = Some [128, 0, 50, 128, 0, 0, 0, 0] \<and> getContext2d sample_api
   \<and> confirm_click sample_api sample_editor =
       [PutImageData [255, 255, 255, 255, 0, 0, 0, 255],
        OnConfirm ''data:image/png;base64,TUFTSw=='' ''replace with a hat'']
   \<and> list_all is_space (prompt (sample_editor\<lparr>prompt := ''   ''\<rparr>))
   \<and> confirm_click sample_api (sample_editor\<lparr>prompt := ''   ''\<rparr>) = []
   \<and> \<not> hasDrawn (sample_editor\<lparr>hasDrawn := False\<rparr>)
   \<and> confirm_click sample_api (sample_editor\<lparr>hasDrawn := False\<rparr>) = []"
proof -
  have h: "hasDrawn sample_editor" "\<not> list_all is_space (prompt sample_editor)"
    "canvas sample_editor = Some [128, 0, 50, 128, 0, 0, 0, 0]" "getContext2d sample_api"
    by (simp_all add: sample_editor_def sample_api_def is_space_def)
  have w: "list_all is_space (prompt (sample_editor\<lparr>prompt := ''   ''\<rparr>))"
    by (simp add: is_space_def)
  have n: "\<not> hasDrawn (sample_editor\<lparr>hasDrawn := False\<rparr>)" by simp
  have b: "binarize (drawnOverBlack sample_api [128, 0, 50, 128, 0, 0, 0, 0]) =
      [255, 255, 255, 255, 0, 0, 0, 255]"
    by (simp add: sample_api_def binarize_def binarize_loop.simps)
  from confirm_gate [of sample_editor sample_api "[128, 0, 50, 128, 0, 0, 0, 0]"] h
  have "confirm_click sample_api sample_editor =
       [PutImageData [255, 255, 255, 255, 0, 0, 0, 255],
        OnConfirm ''data:image/png;base64,TUFTSw=='' ''replace with a hat'']"
    by (simp add: b) (simp add: sample_api_def sample_editor_def)
  moreover from confirm_gate [of "sample_editor\<lparr>prompt := ''   ''\<rparr>" sample_api] w
  have "confirm_click sample_api (sample_editor\<lparr>prompt := ''   ''\<rparr>) = []" by blast
  moreover from confirm_gate [of "sample_editor\<lparr>hasDrawn := False\<rparr>" sample_api] n
  have "confirm_click sample_api (sample_editor\<lparr>hasDrawn := False\<rparr>) = []" by blast
  ultimately show ?thesis using h w n by simp
qed

subsection \<open>Restoration\<close>

lemma analyzeImage_eq:
  "analyzeImage ai log img t =
    (case ai log (analysis_request img t) of
       Rejected \<Rightarrow> (Inl ''Failed to analyze image. Please try again.'',
                     log @ [analysis_request img t])
     | Fulfilled r \<Rightarrow>
         (Inr (or_else (case response_text r of None \<Rightarrow> [] | Some txt \<Rightarrow> txt)
                 ''No analysis available.''), log @ [analysis_request img t]))"
  by (simp add: analyzeImage_def generateContent_def split: reply.splits)

lemma handleRestore_log:
  assumes "capturedImage s = Some img" and "img \<noteq> []"
  shows "snd (handleRestore ai log s) =
      (case ai log (analysis_request img DAMAGE) of
         Rejected \<Rightarrow> log @ [analysis_request img DAMAGE]
       | Fulfilled r \<Rightarrow>
           log @ [analysis_request img DAMAGE,
                  customEdit_request img
                    (restorationPrompt
                       (or_else (case response_text r of None \<Rightarrow> [] | Some txt \<Rightarrow> txt)
                          ''No analysis available.''))
                    ImageStyle_REALISTIC Resolution_HIGH 80])"
  using assms
  by (simp add: handleRestore_def analyzeImage_eq customEdit_eq Let_def
      split: reply.splits option.splits)

lemma fixed_prompt:
  "customEdit_prompt p ImageStyle_REALISTIC Resolution_HIGH 80 =
     p @ ''. Photorealistic, natural lighting, sharp focus, true to life colors. High quality, detailed, sharp focus. Ensure the image has intricate micro-details, hyper-realistic textures, extremely sharp edges, high fidelity.''"
  by (simp add: customEdit_prompt_def getStylePrompt_REALISTIC getResolutionPrompt_template
      resolution_base_def)

lemma damage_request:
  "analysis_request img DAMAGE =
     \<lparr>model = ''gemini-3-pro-preview'',
      parts = [InlineData (cleanBase64 img) ''image/jpeg'',
               TextPart ''Analyze this image specifically for physical defects, damage, and age-related degradation. Look for scratches, dust, tears, discoloration, fading, noise, blurriness, or artifacts. Provide a concise list of what needs to be repaired to restore it to pristine condition.'']\<rparr>"
  by (simp add: analysis_request_def analysis_prompt_def)

lemma restoration_request:
  "customEdit_request img (restorationPrompt report) ImageStyle_REALISTIC Resolution_HIGH 80 =
     \<lparr>model = ''gemini-2.5-flash-image'',
      parts = [InlineData (cleanBase64 img) ''image/jpeg'',
               TextPart (''Restore this photograph to perfection. Fix the following issues: '' @ report @
                 ''. Remove all scratches, tears, noise, and blur. Enhance clarity and sharpness. Ensure colors are natural and vibrant.. Photorealistic, natural lighting, sharp focus, true to life colors. High quality, detailed, sharp focus. Ensure the image has intricate micro-details, hyper-realistic textures, extremely sharp edges, high fidelity.'')]\<rparr>"
  by (simp add: customEdit_request_def image_request_def fixed_prompt restorationPrompt_def)

text \<open>
  C10: with an image captured, the restoration asks for the damage analysis and, when the
  analysis is answered, issues one transformation request to the image model, whose text
  is the restoration prompt followed by the clauses of the style \<^verbatim>\<open>Photorealistic\<close>,
  of the resolution \<^verbatim>\<open>High Quality\<close> and of the detail level 80; when the analysis is
  rejected it issues none. The requests and the results are the same whatever style,
  resolution and detail level the session holds.
\<close>

theorem restore_fixed_configuration:
  assumes "capturedImage s = Some img" and "img \<noteq> []"
    and "analysis =
      \<lparr>model = ''gemini-3-pro-preview'',
       parts = [InlineData (cleanBase64 img) ''image/jpeg'',
                TextPart ''Analyze this image specifically for physical defects, damage, and age-related degradation. Look for scratches, dust, tears, discoloration, fading, noise, blurriness, or artifacts. Provide a concise list of what needs to be repaired to restore it to pristine condition.'']\<rparr>"
  shows
    "snd (handleRestore ai log s) =
      (case ai log analysis of
         Rejected \<Rightarrow> log @ [analysis]
       | Fulfilled r \<Rightarrow>
           log @ [analysis,
                  \<lparr>model = ''gemini-2.5-flash-image'',
                   parts = [InlineData (cleanBase64 img) ''image/jpeg'',
                            TextPart (''Restore this photograph to perfection. Fix the following issues: '' @
                              or_else (case response_text r of None \<Rightarrow> [] | Some txt \<Rightarrow> txt)
                                ''No analysis available.'' @
                              ''. Remove all scratches, tears, noise, and blur. Enhance clarity and sharpness. Ensure colors are natural and vibrant.. Photorealistic, natural lighting, sharp focus, true to life colors. High quality, detailed, sharp focus. Ensure the image has intricate micro-details, hyper-realistic textures, extremely sharp edges, high fidelity.'')]\<rparr>])
     \<and> ''. Photorealistic, natural lighting, sharp focus, true to life colors. High quality, detailed, sharp focus. Ensure the image has intricate micro-details, hyper-realistic textures, extremely sharp edges, high fidelity.'' =
         ''. '' @ getStylePrompt ''Photorealistic'' @ '' '' @ getResolutionPrompt ''High Quality'' 80
     \<and> snd (handleRestore ai log
              (s\<lparr>selectedStyle := st, selectedResolution := rs, detailLevel := d\<rparr>)) =
         snd (handleRestore ai log s)
     \<and> generatedResults (fst (handleRestore ai log
              (s\<lparr>selectedStyle := st, selectedResolution := rs, detailLevel := d\<rparr>))) =
         generatedResults (fst (handleRestore ai log s))"
proof (intro conjI)
  let ?s = "s\<lparr>selectedStyle := st, selectedResolution := rs, detailLevel := d\<rparr>"
  have c: "capturedImage ?s = Some img" using assms(1) by simp
  show "snd (handleRestore ai log s) =
      (case ai log analysis of
         Rejected \<Rightarrow> log @ [analysis]
       | Fulfilled r \<Rightarrow>
           log @ [analysis,
                  \<lparr>model = ''gemini-2.5-flash-image'',
                   parts = [InlineData (cleanBase64 img) ''image/jpeg'',
                            TextPart (''Restore this photograph to perfection. Fix the following issues: '' @
                              or_else (case response_text r of None \<Rightarrow> [] | Some txt \<Rightarrow> txt)
                                ''No analysis available.'' @
                              ''. Remove all scratches, tears, noise, and blur. Enhance clarity and sharpness. Ensure colors are natural and vibrant.. Photorealistic, natural lighting, sharp focus, true to life colors. High quality, detailed, sharp focus. Ensure the image has intricate micro-details, hyper-realistic textures, extremely sharp edges, high fidelity.'')]\<rparr>])"
    unfolding assms(3)
    by (rule handleRestore_log [OF assms(1,2), unfolded restoration_request damage_request])
  show "''. Photorealistic, natural lighting, sharp focus, true to life colors. High quality, detailed, sharp focus. Ensure the image has intricate micro-details, hyper-realistic textures, extremely sharp edges, high fidelity.'' =
         ''. '' @ getStylePrompt ''Photorealistic'' @ '' '' @ getResolutionPrompt ''High Quality'' 80"
    using getStylePrompt_REALISTIC
    by (simp add: getResolutionPrompt_template resolution_base_def ImageStyle_REALISTIC_def
        Resolution_HIGH_def)
  show "snd (handleRestore ai log ?s) = snd (handleRestore ai log s)"
    by (simp only: handleRestore_log [OF assms(1,2)] handleRestore_log [OF c assms(2)])
  show "generatedResults (fst (handleRestore ai log ?s)) =
         generatedResults (fst (handleRestore ai log s))"
    using assms(1,2)
    by (simp add: handleRestore_def handleRestore_start_def analyzeImage_eq customEdit_eq Let_def
        split: reply.splits option.splits)
qed

theorem restore_fixed_configuration_witness:
  "capturedImage (captured_session\<lparr>selectedStyle := ImageStyle_SKETCH,
       selectedResolution := Resolution_ULTRA_4K, detailLevel := 10\<rparr>) = Some sample_image
   \<and> sample_image \<noteq> []
   \<and> snd (handleRestore ai_every_item []
        (captured_session\<lparr>selectedStyle := ImageStyle_SKETCH,
           selectedResolution := Resolution_ULTRA_4K, detailLevel := 10\<rparr>)) =
       [\<lparr>model = ''gemini-3-pro-preview'',
         parts = [InlineData ''QUJD'' ''image/jpeg'',
                  TextPart ''Analyze this image specifically for physical defects, damage, and age-related degradation. Look for scratches, dust, tears, discoloration, fading, noise, blurriness, or artifacts. Provide a concise list of what needs to be repaired to restore it to pristine condition.'']\<rparr>,
        \<lparr>model = ''gemini-2.5-flash-image'',
         parts = [InlineData ''QUJD'' ''image/jpeg'',
                  TextPart ''Restore this photograph to perfection. Fix the following issues: two scratches. Remove all scratches, tears, noise, and blur. Enhance clarity and sharpness. Ensure colors are natural and vibrant.. Photorealistic, natural lighting, sharp focus, true to life colors. High quality, detailed, sharp focus. Ensure the image has intricate micro-details, hyper-realistic textures, extremely sharp edges, high fidelity.'']\<rparr>]"
proof -
  let ?s = "captured_session\<lparr>selectedStyle := ImageStyle_SKETCH,
       selectedResolution := Resolution_ULTRA_4K, detailLevel := 10\<rparr>"
  have h1: "capturedImage ?s = Some sample_image" by (simp add: captured_session_eq)
  have h2: "sample_image \<noteq> []" by simp
  from restore_fixed_configuration [OF h1 h2 refl, of ai_every_item "[]"]
  have "snd (handleRestore ai_every_item [] ?s) =
       [\<lparr>model = ''gemini-3-pro-preview'',
         parts = [InlineData ''QUJD'' ''image/jpeg'',
                  TextPart ''Analyze this image specifically for physical defects, damage, and age-related degradation. Look for scratches, dust, tears, discoloration, fading, noise, blurriness, or artifacts. Provide a concise list of what needs to be repaired to restore it to pristine condition.'']\<rparr>,
        \<lparr>model = ''gemini-2.5-flash-image'',
         parts = [InlineData ''QUJD'' ''image/jpeg'',
                  TextPart ''Restore this photograph to perfection. Fix the following issues: two scratches. Remove all scratches, tears, noise, and blur. Enhance clarity and sharpness. Ensure colors are natural and vibrant.. Photorealistic, natural lighting, sharp focus, true to life colors. High quality, detailed, sharp focus. Ensure the image has intricate micro-details, hyper-realistic textures, extremely sharp edges, high fidelity.'']\<rparr>]"
    by (simp add: ai_every_item_def image_reply_def or_else_def cleanBase64_sample_image)
  with h1 h2 show ?thesis by simp
qed

end
